theory Spec2Isabelle
  imports Complex_Main "HOL-Library.AList"
begin

section \<open>Values shared by the engine modules\<close>

text \<open>
  The engine is written against pygame's \<open>Vector2\<close> (a pair of floats) and \<open>Rect\<close>
  (four integers).  Python floats are modelled as \<open>real\<close>: every theorem below that
  mentions a float is a statement about the exact arithmetic the code is written in, not
  about IEEE rounding.  \<open>float('inf')\<close> is a value of its own (\<open>Infinity\<close> below), because
  the code compares against it.
\<close>

datatype vec2 = Vector2 (vx: real) (vy: real)

definition vadd :: "vec2 \<Rightarrow> vec2 \<Rightarrow> vec2" where
  "vadd a b = Vector2 (vx a + vx b) (vy a + vy b)"

definition vsub :: "vec2 \<Rightarrow> vec2 \<Rightarrow> vec2" where
  "vsub a b = Vector2 (vx a - vx b) (vy a - vy b)"

definition vscale :: "vec2 \<Rightarrow> real \<Rightarrow> vec2" where
  "vscale a k = Vector2 (vx a * k) (vy a * k)"

definition dot :: "vec2 \<Rightarrow> vec2 \<Rightarrow> real" where
  "dot a b = vx a * vx b + vy a * vy b"

datatype py_error =
  ZeroDivisionError | ValueError | NotImplementedError | TypeError

section \<open>engine/physics.py\<close>

record GameObjectUpdateRes =
  object_moved :: bool

record PhysicsBody =
  position :: vec2
  velocity :: vec2
  acceleration :: vec2
  mass :: real
  drag :: real
  friction :: real
  is_static :: bool
  rotation :: real
  angular_velocity :: real
  angular_drag :: real
  enable_rotation :: bool
  forces :: vec2
  torque :: real
  inverse_mass :: real

text \<open>
  The dataclass constructor followed by \<open>__post_init__\<close>.  \<open>forces\<close> and
  \<open>inverse_mass\<close> are \<open>init=False\<close> fields: the first starts as \<open>Vector2()\<close>, the
  second is computed.  For \<open>mass > 0\<close> the division \<open>1.0 / mass\<close> cannot raise.
\<close>

definition PhysicsBody_init ::
  "vec2 \<Rightarrow> vec2 \<Rightarrow> vec2 \<Rightarrow> real \<Rightarrow> real \<Rightarrow> real \<Rightarrow> bool \<Rightarrow> real \<Rightarrow> real \<Rightarrow> real \<Rightarrow> bool \<Rightarrow> real
     \<Rightarrow> PhysicsBody" where
  "PhysicsBody_init pos vel acc m dr fr st rot av ad er tq =
     \<lparr> position = pos, velocity = vel, acceleration = acc, mass = m, drag = dr,
       friction = fr, is_static = st, rotation = rot, angular_velocity = av,
       angular_drag = ad, enable_rotation = er, forces = Vector2 0 0, torque = tq,
       inverse_mass = (if st \<or> m \<le> 0 then 0 else 1 / m) \<rparr>"

definition apply_force :: "PhysicsBody \<Rightarrow> vec2 \<Rightarrow> PhysicsBody" where
  "apply_force b force =
     (if \<not> is_static b then b\<lparr>forces := vadd (forces b) force\<rparr> else b)"

definition apply_impulse :: "PhysicsBody \<Rightarrow> vec2 \<Rightarrow> PhysicsBody" where
  "apply_impulse b impulse =
     (if \<not> is_static b
      then b\<lparr>velocity := vadd (velocity b) (vscale impulse (inverse_mass b))\<rparr>
      else b)"

text \<open>\<open>integrate\<close> mutates the body and returns the movement flag: the model returns both.\<close>

definition integrate :: "PhysicsBody \<Rightarrow> real \<Rightarrow> PhysicsBody \<times> GameObjectUpdateRes" where
  "integrate b dt =
     (if is_static b then (b, \<lparr>object_moved = False\<rparr>)
      else
        let prev_position = position b;
            prev_rotation = rotation b;
            acc0 = vscale (forces b) (inverse_mass b);
            acc1 = (if friction b > 0 then vsub acc0 (vscale (velocity b) (friction b)) else acc0);
            acc = (if drag b > 0 then vsub acc1 (vscale (velocity b) (drag b)) else acc1);
            b1 = b\<lparr>velocity := vadd (velocity b) (vscale acc dt)\<rparr>;
            b2 = b1\<lparr>position := vadd (position b1) (vscale (velocity b1) dt)\<rparr>;
            b3 = (if enable_rotation b2
                  then (let b' = b2\<lparr>angular_velocity :=
                                       angular_velocity b2 * max 0 (1 - angular_drag b2 * dt)\<rparr>
                        in b'\<lparr>rotation := rotation b' + angular_velocity b' * dt\<rparr>)
                  else b2);
            b4 = b3\<lparr>forces := Vector2 0 0, acceleration := acc\<rparr>;
            position_changed = (position b4 \<noteq> prev_position);
            rotation_changed = (enable_rotation b4 \<and> rotation b4 \<noteq> prev_rotation)
        in (b4, \<lparr>object_moved = (position_changed \<or> rotation_changed)\<rparr>))"

section \<open>pygame.Rect\<close>

text \<open>
  \<open>Rect\<close> belongs to pygame, not to the repository; the model keeps what the engine
  reads of it.  Its four fields are integers (the constructor truncates floats), the
  edges are \<open>left = x\<close>, \<open>top = y\<close>, \<open>right = x + width\<close>, \<open>bottom = y + height\<close>,
  and \<open>colliderect\<close> is pygame 2's test: a rectangle of zero width or height collides
  with nothing, two others collide when their open interiors meet (sizes may be
  negative, hence the min and max on each side).
\<close>

datatype rect = Rect (rect_x: int) (rect_y: int) (rect_width: int) (rect_height: int)

definition rect_left :: "rect \<Rightarrow> int" where
  "rect_left r = rect_x r"

definition rect_top :: "rect \<Rightarrow> int" where
  "rect_top r = rect_y r"

definition rect_right :: "rect \<Rightarrow> int" where
  "rect_right r = rect_x r + rect_width r"

definition rect_bottom :: "rect \<Rightarrow> int" where
  "rect_bottom r = rect_y r + rect_height r"

definition colliderect :: "rect \<Rightarrow> rect \<Rightarrow> bool" where
  "colliderect a b =
     (if rect_width a = 0 \<or> rect_height a = 0 \<or> rect_width b = 0 \<or> rect_height b = 0
      then False
      else min (rect_x a) (rect_x a + rect_width a) < max (rect_x b) (rect_x b + rect_width b)
         \<and> min (rect_y a) (rect_y a + rect_height a) < max (rect_y b) (rect_y b + rect_height b)
         \<and> max (rect_x a) (rect_x a + rect_width a) > min (rect_x b) (rect_x b + rect_width b)
         \<and> max (rect_y a) (rect_y a + rect_height a) > min (rect_y b) (rect_y b + rect_height b))"

section \<open>engine/interfaces.py: result values\<close>

record RaycastHit =
  point :: vec2
  normal :: vec2
  distance :: real

record CollisionInfo =
  contact_points :: "vec2 list"
  collision_normal :: vec2
  penetration :: real

text \<open>A maximum ray distance: a finite float or \<open>float('inf')\<close>.\<close>

datatype max_distance = Finite real | Infinity

fun le_max :: "real \<Rightarrow> max_distance \<Rightarrow> bool" where
  "le_max t (Finite m) = (t \<le> m)"
| "le_max t Infinity = True"

section \<open>engine/primitives.py\<close>

text \<open>
  \<open>Vector2.normalize\<close> raises \<open>ValueError\<close> on the zero vector and divides by the
  length otherwise.
\<close>

definition vlength :: "vec2 \<Rightarrow> real" where
  "vlength v = sqrt (vx v * vx v + vy v * vy v)"

definition normalize :: "vec2 \<Rightarrow> py_error + vec2" where
  "normalize v =
     (if vlength v = 0 then Inl ValueError
      else Inr (Vector2 (vx v / vlength v) (vy v / vlength v)))"

record CircleShape =
  circle_position :: vec2
  radius :: real

text \<open>
  \<open>CircleShape.intersects_ray\<close>.  The two roots are \<open>t1\<close> and \<open>t2\<close> of the source;
  a float division by \<open>2 * a = 0\<close> (a zero direction) raises \<open>ZeroDivisionError\<close>.
\<close>

definition ray_t1 :: "CircleShape \<Rightarrow> vec2 \<Rightarrow> vec2 \<Rightarrow> real" where
  "ray_t1 s origin direction =
     (let oc = vsub origin (circle_position s);
          a = dot direction direction;
          b = 2 * dot oc direction;
          c = dot oc oc - radius s * radius s
      in (- b - sqrt (b * b - 4 * a * c)) / (2 * a))"

definition ray_t2 :: "CircleShape \<Rightarrow> vec2 \<Rightarrow> vec2 \<Rightarrow> real" where
  "ray_t2 s origin direction =
     (let oc = vsub origin (circle_position s);
          a = dot direction direction;
          b = 2 * dot oc direction;
          c = dot oc oc - radius s * radius s
      in (- b + sqrt (b * b - 4 * a * c)) / (2 * a))"

definition circle_intersects_ray ::
  "CircleShape \<Rightarrow> vec2 \<Rightarrow> vec2 \<Rightarrow> max_distance \<Rightarrow> py_error + RaycastHit option" where
  "circle_intersects_ray s origin direction maxd =
     (let oc = vsub origin (circle_position s);
          a = dot direction direction;
          b = 2 * dot oc direction;
          c = dot oc oc - radius s * radius s;
          discriminant = b * b - 4 * a * c
      in if discriminant < 0 then Inr None
         else if 2 * a = 0 then Inl ZeroDivisionError
         else
           let t1 = ray_t1 s origin direction;
               t2 = ray_t2 s origin direction;
               t = (if t1 \<ge> 0 \<and> le_max t1 maxd then Some t1
                    else if t2 \<ge> 0 \<and> le_max t2 maxd then Some t2
                    else None)
           in case t of
                None \<Rightarrow> Inr None
              | Some t' \<Rightarrow>
                  (let hit_point = vadd origin (vscale direction t')
                   in case normalize (vsub hit_point (circle_position s)) of
                        Inl e \<Rightarrow> Inl e
                      | Inr n \<Rightarrow> Inr (Some \<lparr>point = hit_point, normal = n, distance = t'\<rparr>)))"

text \<open>
  \<open>PolygonShape.__init__\<close>: the position is the vertex mean.  Dividing the vector sum
  by \<open>len(vertices) = 0\<close> raises \<open>ZeroDivisionError\<close>; there is no other check.
\<close>

record PolygonShape =
  polygon_position :: vec2
  vertices :: "vec2 list"

definition PolygonShape_init :: "vec2 list \<Rightarrow> py_error + PolygonShape" where
  "PolygonShape_init vs =
     (if length vs = 0 then Inl ZeroDivisionError
      else Inr \<lparr>polygon_position =
                  Vector2 (vx (foldl vadd (Vector2 0 0) vs) / real (length vs))
                          (vy (foldl vadd (Vector2 0 0) vs) / real (length vs)),
                vertices = vs\<rparr>)"



section \<open>engine/collision.py: rectangle against rectangle\<close>











section \<open>Vocabulary for the ray against a circle\<close>

text \<open>
  The point of the ray at parameter \<open>t\<close>, the circle as a set of points, and the
  parameters the caller admits: those in \<open>[0, max_distance]\<close>.
\<close>

definition ray_point :: "vec2 \<Rightarrow> vec2 \<Rightarrow> real \<Rightarrow> vec2" where
  "ray_point origin direction t = vadd origin (vscale direction t)"

definition on_circle :: "CircleShape \<Rightarrow> vec2 \<Rightarrow> bool" where
  "on_circle s p =
     (dot (vsub p (circle_position s)) (vsub p (circle_position s)) = radius s * radius s)"

definition admissible :: "real \<Rightarrow> max_distance \<Rightarrow> bool" where
  "admissible t maxd = (0 \<le> t \<and> le_max t maxd)"

text \<open>
  The discriminant of the quadratic that \<open>intersects_ray\<close> solves, and the hit it
  reports at a parameter \<open>t\<close> where the ray meets a circle of radius other than \<open>0\<close>:
  the point of the ray, and the vector from the centre to that point divided by its
  length, which is the absolute value of the radius.
\<close>

definition ray_discriminant :: "CircleShape \<Rightarrow> vec2 \<Rightarrow> vec2 \<Rightarrow> real" where
  "ray_discriminant s origin direction =
     (let oc = vsub origin (circle_position s);
          a = dot direction direction;
          b = 2 * dot oc direction;
          c = dot oc oc - radius s * radius s
      in b * b - 4 * a * c)"

definition hit_at :: "CircleShape \<Rightarrow> vec2 \<Rightarrow> vec2 \<Rightarrow> real \<Rightarrow> RaycastHit" where
  "hit_at s origin direction t =
     \<lparr>point = ray_point origin direction t,
      normal = Vector2 (vx (vsub (ray_point origin direction t) (circle_position s)) / \<bar>radius s\<bar>)
                       (vy (vsub (ray_point origin direction t) (circle_position s)) / \<bar>radius s\<bar>),
      distance = t\<rparr>"

section \<open>engine/spatial.py\<close>

text \<open>
  A node of the quad tree.  The index sees an entity only through
  \<open>obj.get_collision_shape()\<close> and the shape's \<open>get_bounding_rect()\<close>; the model takes
  that composition as the parameter \<open>bbox\<close> (\<open>None\<close> for an entity with no shape), read
  at the moment of the call as the code reads it.

  \<open>objects\<close> is a Python set of entity references: the model keeps its elements in a
  list without duplicates, \<open>add\<close> appends a new element, and iterating the set is
  iterating the list.  \<open>nodes\<close> is the list of children: empty while all four entries
  are \<open>None\<close>, the four quadrants NE, NW, SW, SE after \<open>split\<close>; an index past its end
  reads as \<open>None\<close>.
\<close>

datatype 'o SpatialQuadTree =
  SpatialQuadTree (bounds: rect) (max_objects: int) (max_levels: int) (level: int)
    (objects: "'o list") (nodes: "'o SpatialQuadTree list")
    (vertical_mid: int) (horizontal_mid: int)

definition SpatialQuadTree_init :: "rect \<Rightarrow> int \<Rightarrow> int \<Rightarrow> int \<Rightarrow> 'o SpatialQuadTree" where
  "SpatialQuadTree_init b mo ml lv = SpatialQuadTree b mo ml lv [] [] 0 0"

definition set_objects :: "'o SpatialQuadTree \<Rightarrow> 'o list \<Rightarrow> 'o SpatialQuadTree" where
  "set_objects t os =
     SpatialQuadTree (bounds t) (max_objects t) (max_levels t) (level t) os (nodes t)
       (vertical_mid t) (horizontal_mid t)"

definition set_node :: "'o SpatialQuadTree \<Rightarrow> nat \<Rightarrow> 'o SpatialQuadTree \<Rightarrow> 'o SpatialQuadTree" where
  "set_node t i c =
     SpatialQuadTree (bounds t) (max_objects t) (max_levels t) (level t) (objects t)
       ((nodes t)[i := c]) (vertical_mid t) (horizontal_mid t)"

definition split :: "'o SpatialQuadTree \<Rightarrow> 'o SpatialQuadTree" where
  "split t =
     (let sub_width = rect_width (bounds t) div 2;
          sub_height = rect_height (bounds t) div 2;
          x = rect_x (bounds t);
          y = rect_y (bounds t);
          vmid = x + sub_width;
          hmid = y + sub_height
      in SpatialQuadTree (bounds t) (max_objects t) (max_levels t) (level t) (objects t)
           [SpatialQuadTree_init (Rect vmid y sub_width sub_height)
              (max_objects t) (max_levels t) (level t + 1),
            SpatialQuadTree_init (Rect x y sub_width sub_height)
              (max_objects t) (max_levels t) (level t + 1),
            SpatialQuadTree_init (Rect x hmid sub_width sub_height)
              (max_objects t) (max_levels t) (level t + 1),
            SpatialQuadTree_init (Rect vmid hmid sub_width sub_height)
              (max_objects t) (max_levels t) (level t + 1)]
           vmid hmid)"

definition get_index :: "'o SpatialQuadTree \<Rightarrow> rect \<Rightarrow> int" where
  "get_index t r =
     (let in_left = (rect_right r \<le> vertical_mid t);
          in_right = (rect_left r \<ge> vertical_mid t);
          in_top = (rect_bottom r \<le> horizontal_mid t);
          in_bottom = (rect_top r \<ge> horizontal_mid t)
      in if in_left then (if in_top then 1 else if in_bottom then 2 else -1)
         else if in_right then (if in_top then 0 else if in_bottom then 3 else -1)
         else -1)"

text \<open>Set operations on the list that stands for a Python set.\<close>

definition set_add :: "'o \<Rightarrow> 'o list \<Rightarrow> 'o list" where
  "set_add obj os = (if obj \<in> set os then os else os @ [obj])"

definition set_discard :: "'o \<Rightarrow> 'o list \<Rightarrow> 'o list" where
  "set_discard obj os = removeAll obj os"

text \<open>
  \<open>insert\<close> and the redistribution loop inside it call each other, and the loop
  inserts into children that earlier iterations have already changed.  Both end because
  no call lets a node grow deeper than \<open>pot\<close>: the levels a leaf may still split, one
  more than its deepest child for an inner node.
\<close>

fun pot :: "'o SpatialQuadTree \<Rightarrow> nat" where
  "pot (SpatialQuadTree b mo ml lv os ns vm hm) =
     (if ns = [] then nat (ml - lv) else Suc (Max (set (map pot ns))))"

lemma pot_child: "i < length (nodes t) \<Longrightarrow> pot (nodes t ! i) < pot t"
proof (cases t)
  case (SpatialQuadTree b mo ml lv os ns vm hm)
  assume "i < length (nodes t)"
  then have i: "i < length ns" and ne: "ns \<noteq> []" using SpatialQuadTree by auto
  have "pot (ns ! i) \<in> set (map pot ns)" using i by auto
  then have "pot (ns ! i) \<le> Max (set (map pot ns))" by (intro Max_ge) auto
  then show ?thesis using SpatialQuadTree ne by simp
qed

lemma pot_set_objects [simp]: "pot (set_objects t os) = pot t"
  by (cases t) (simp add: set_objects_def)

lemma pot_split: "nodes t = [] \<Longrightarrow> level t < max_levels t \<Longrightarrow> pot (split t) = pot t"
  by (cases t) (auto simp add: split_def Let_def SpatialQuadTree_init_def)

lemma pot_set_node:
  assumes "i < length (nodes t)" "pot c \<le> pot (nodes t ! i)"
  shows "pot (set_node t i c) \<le> pot t"
proof (cases t)
  case (SpatialQuadTree b mo ml lv os ns vm hm)
  then have i: "i < length ns" and ne: "ns \<noteq> []" and c: "pot c \<le> pot (ns ! i)"
    using assms by auto
  have "Max (set (map pot (ns[i := c]))) \<le> Max (set (map pot ns))"
  proof (intro Max.boundedI)
    show "finite (set (map pot (ns[i := c])))" by simp
    show "set (map pot (ns[i := c])) \<noteq> {}" using ne by simp
    fix a assume "a \<in> set (map pot (ns[i := c]))"
    then obtain x where x: "x \<in> set (ns[i := c])" "a = pot x" by auto
    then have "x = c \<or> x \<in> set ns" using set_update_subset_insert[of ns i c] by auto
    moreover have "pot (ns ! i) \<le> Max (set (map pot ns))" using i by (intro Max_ge) auto
    moreover have "x \<in> set ns \<Longrightarrow> pot x \<le> Max (set (map pot ns))" by (intro Max_ge) auto
    ultimately show "a \<le> Max (set (map pot ns))" using c x by auto
  qed
  then show ?thesis using SpatialQuadTree ne by (simp add: set_node_def)
qed

text \<open>
  \<open>SpatialQuadTree.insert\<close>; \<open>redistribute\<close> is its loop
  \<open>for obj in list(self.objects)\<close>, run on the snapshot of the set.  Each element of
  the snapshot is still in the set when the loop reaches it, so \<open>self.objects.remove\<close>
  cannot raise.
\<close>

function insert_obj :: "('o \<Rightarrow> rect option) \<Rightarrow> 'o \<Rightarrow> 'o SpatialQuadTree \<Rightarrow> 'o SpatialQuadTree"
  and redistribute :: "('o \<Rightarrow> rect option) \<Rightarrow> 'o list \<Rightarrow> 'o SpatialQuadTree \<Rightarrow> 'o SpatialQuadTree"
where
  "insert_obj bbox obj t =
     (case bbox obj of
        None \<Rightarrow> t
      | Some obj_rect \<Rightarrow>
          if \<not> colliderect (bounds t) obj_rect then t
          else if nodes t \<noteq> [] \<and> get_index t obj_rect \<noteq> -1
                  \<and> nat (get_index t obj_rect) < length (nodes t)
          then set_node t (nat (get_index t obj_rect))
                 (insert_obj bbox obj (nodes t ! nat (get_index t obj_rect)))
          else
            let t1 = set_objects t (set_add obj (objects t))
            in if int (length (objects t1)) > max_objects t1 \<and> level t1 < max_levels t1
               then (let t2 = (if nodes t1 = [] then split t1 else t1)
                     in redistribute bbox (objects t2) t2)
               else t1)"
| "redistribute bbox [] t = t"
| "redistribute bbox (obj # rest) t =
     (case bbox obj of
        None \<Rightarrow> redistribute bbox rest t
      | Some obj_rect \<Rightarrow>
          if get_index t obj_rect \<noteq> -1 \<and> nat (get_index t obj_rect) < length (nodes t)
          then redistribute bbox rest
                 (set_objects
                    (set_node t (nat (get_index t obj_rect))
                       (insert_obj bbox obj (nodes t ! nat (get_index t obj_rect))))
                    (set_discard obj (objects t)))
          else redistribute bbox rest t)"
  by pat_completeness auto


lemma nodes_set_objects [simp]: "nodes (set_objects t os) = nodes t"
  by (simp add: set_objects_def)

lemma level_set_objects [simp]: "level (set_objects t os) = level t"
  by (simp add: set_objects_def)

lemma max_levels_set_objects [simp]: "max_levels (set_objects t os) = max_levels t"
  by (simp add: set_objects_def)

lemma pot_insert_le:
  "insert_obj_redistribute_dom (Inl (bbox, obj, t)) \<Longrightarrow> pot (insert_obj bbox obj t) \<le> pot t"
  "insert_obj_redistribute_dom (Inr (bbox, objs, t)) \<Longrightarrow> pot (redistribute bbox objs t) \<le> pot t"
proof (induction bbox obj t and bbox objs t rule: insert_obj_redistribute.pinduct)
  case (1 bbox obj t)
  show ?case
  proof (cases "bbox obj")
    case None
    then show ?thesis using "1.hyps" by (simp add: insert_obj.psimps)
  next
    case (Some r)
    show ?thesis
    proof (cases "colliderect (bounds t) r")
      case False
      then show ?thesis using "1.hyps" Some by (simp add: insert_obj.psimps)
    next
      case True
      show ?thesis
      proof (cases "nodes t \<noteq> [] \<and> get_index t r \<noteq> -1 \<and> nat (get_index t r) < length (nodes t)")
        case c: True
        have "pot (insert_obj bbox obj (nodes t ! nat (get_index t r))) \<le> pot (nodes t ! nat (get_index t r))"
          using "1.IH"(1)[OF Some _ c] True by simp
        then have "pot (set_node t (nat (get_index t r)) (insert_obj bbox obj (nodes t ! nat (get_index t r)))) \<le> pot t"
          using c by (intro pot_set_node) auto
        then show ?thesis using "1.hyps" Some True c by (simp add: insert_obj.psimps)
      next
        case c: False
        define t1 where "t1 = set_objects t (set_add obj (objects t))"
        show ?thesis
        proof (cases "max_objects t1 < int (length (objects t1)) \<and> level t1 < max_levels t1")
          case s: True
          define t2 where "t2 = (if nodes t1 = [] then split t1 else t1)"
          have p2: "pot t2 = pot t"
            using s by (auto simp add: t2_def t1_def pot_split)
          have "pot (redistribute bbox (objects t2) t2) \<le> pot t2"
            using "1.IH"(2)[OF Some _ c t1_def s t2_def] True by simp
          moreover have "insert_obj bbox obj t = redistribute bbox (objects t2) t2"
            using "1.hyps" Some True c s
            by (auto simp add: insert_obj.psimps Let_def t1_def[symmetric] t2_def[symmetric])
          ultimately show ?thesis using p2 by simp
        next
          case s: False
          have "insert_obj bbox obj t = t1"
            using "1.hyps" Some True c s
            by (auto simp add: insert_obj.psimps Let_def t1_def[symmetric])
          then show ?thesis by (simp add: t1_def)
        qed
      qed
    qed
  qed
next
  case (2 bbox t)
  then show ?case by (simp add: redistribute.psimps)
next
  case (3 bbox obj rest t)
  show ?case
  proof (cases "bbox obj")
    case None
    then show ?thesis using "3.hyps" "3.IH"(1) by (simp add: redistribute.psimps)
  next
    case (Some r)
    show ?thesis
    proof (cases "get_index t r \<noteq> -1 \<and> nat (get_index t r) < length (nodes t)")
      case c: True
      define c' where "c' = insert_obj bbox obj (nodes t ! nat (get_index t r))"
      define t' where "t' = set_objects (set_node t (nat (get_index t r)) c') (set_discard obj (objects t))"
      have "pot c' \<le> pot (nodes t ! nat (get_index t r))"
        using "3.IH"(2)[OF Some c] by (simp add: c'_def)
      then have "pot t' \<le> pot t"
        using c by (simp add: t'_def pot_set_node)
      moreover have "pot (redistribute bbox rest t') \<le> pot t'"
        using "3.IH"(3)[OF Some c] by (simp add: t'_def c'_def)
      moreover have "redistribute bbox (obj # rest) t = redistribute bbox rest t'"
        using "3.hyps" Some c by (simp add: redistribute.psimps t'_def c'_def)
      ultimately show ?thesis by simp
    next
      case c: False
      then show ?thesis using "3.hyps" "3.IH"(4)[OF Some c] Some by (auto simp add: redistribute.psimps)
    qed
  qed
qed

termination insert_obj
proof (relation "measures [
    (\<lambda>x. case x of Inl (bbox, obj, t) \<Rightarrow> pot t | Inr (bbox, objs, t) \<Rightarrow> pot t),
    (\<lambda>x. case x of Inl (bbox, obj, t) \<Rightarrow> 1 | Inr (bbox, objs, t) \<Rightarrow> 0),
    (\<lambda>x. case x of Inl (bbox, obj, t) \<Rightarrow> 0 | Inr (bbox, objs, t) \<Rightarrow> length objs)]", goal_cases)
  case 1
  show ?case by simp
next
  case (2 bbox obj t r)
  then show ?case by (simp add: pot_child)
next
  case (3 bbox obj t r t1 t2)
  then have "pot t2 = pot t" by (auto simp add: pot_split)
  then show ?case by simp
next
  case (4 bbox obj rest t)
  then show ?case by simp
next
  case (5 bbox obj rest t r)
  then show ?case by (simp add: pot_child)
next
  case (6 bbox obj rest t r)
  then have "pot (insert_obj bbox obj (nodes t ! nat (get_index t r))) \<le> pot (nodes t ! nat (get_index t r))"
    by (intro pot_insert_le(1)) 
  then have "pot (set_objects (set_node t (nat (get_index t r)) (insert_obj bbox obj (nodes t ! nat (get_index t r))))
       (set_discard obj (objects t))) \<le> pot t"
    using 6 by (simp add: pot_set_node)
  then show ?case by auto
next
  case (7 bbox obj rest t r)
  then show ?case by simp
qed


declare insert_obj.simps [simp del]

text \<open>
  \<open>remove\<close> reads the entity's bounding box when it is called, \<open>_remove_recursive\<close>
  descends into every child whose region collides with that box, and \<open>update_object\<close>
  (docstring: "Remove and re-insert an object (for when it moves)") is \<open>remove\<close>
  followed by \<open>insert\<close>, both reading the box the entity has at that moment.
\<close>

fun remove_recursive :: "'o \<Rightarrow> rect \<Rightarrow> 'o SpatialQuadTree \<Rightarrow> 'o SpatialQuadTree" where
  "remove_recursive obj obj_rect (SpatialQuadTree b mo ml lv os ns vm hm) =
     (if \<not> colliderect b obj_rect then SpatialQuadTree b mo ml lv os ns vm hm
      else SpatialQuadTree b mo ml lv (set_discard obj os)
             (if ns \<noteq> [] then map (remove_recursive obj obj_rect) ns else ns) vm hm)"

definition remove_obj :: "('o \<Rightarrow> rect option) \<Rightarrow> 'o \<Rightarrow> 'o SpatialQuadTree \<Rightarrow> 'o SpatialQuadTree" where
  "remove_obj bbox obj t =
     (case bbox obj of None \<Rightarrow> t | Some obj_rect \<Rightarrow> remove_recursive obj obj_rect t)"

definition update_object :: "('o \<Rightarrow> rect option) \<Rightarrow> 'o \<Rightarrow> 'o SpatialQuadTree \<Rightarrow> 'o SpatialQuadTree" where
  "update_object bbox obj t = insert_obj bbox obj (remove_obj bbox obj t)"

text \<open>\<open>retrieve\<close>; \<open>found.update(...)\<close> is the union of sets.\<close>

definition set_union :: "'o list \<Rightarrow> 'o list \<Rightarrow> 'o list" where
  "set_union found xs = fold set_add xs found"

lemma size_nth_nodes: "i < length ns \<Longrightarrow> size (ns ! i) \<le> size_list size ns"
  by (metis nth_mem size_list_estimation' order_refl)

function retrieve :: "rect \<Rightarrow> 'o SpatialQuadTree \<Rightarrow> 'o list" where
  "retrieve obj_rect t =
     (if \<not> colliderect (bounds t) obj_rect then []
      else if nodes t \<noteq> [] then
        (if get_index t obj_rect \<noteq> -1 then
           (if nat (get_index t obj_rect) < length (nodes t)
            then set_union (objects t) (retrieve obj_rect (nodes t ! nat (get_index t obj_rect)))
            else objects t)
         else fold (\<lambda>node found. set_union found (retrieve obj_rect node)) (nodes t) (objects t))
      else objects t)"
  by pat_completeness auto
termination
proof (relation "measure (\<lambda>(r, t). size t)", goal_cases)
  case 1
  show ?case by simp
next
  case (2 obj_rect t)
  then show ?case by (cases t) (auto simp add: less_Suc_eq_le intro: trans_le_add2 size_nth_nodes)
next
  case (3 obj_rect t x)
  then show ?case by (cases t) (auto simp add: less_Suc_eq_le intro: trans_le_add2 size_list_estimation')
qed

declare retrieve.simps [simp del]

section \<open>Entities\<close>

text \<open>
  \<open>GameObject\<close> is an abstract class; its subclasses live outside the engine.  An
  entity is a reference into a store of entity states, so that the registry, the spatial
  index and the entity itself share one mutable object as they do in Python.  The state
  keeps what the engine asks of an entity: its \<open>_id\<close>, \<open>getType()\<close>,
  \<open>is_collidable()\<close>, \<open>get_collision_shape()\<close> and its Python class (\<open>type(obj)\<close>).
  The shape type \<open>'s\<close> stands for \<open>CollisionShape\<close>, whose methods are abstract: code
  written against it takes them as parameters.
\<close>

type_synonym ref = nat

datatype py_type =
  CircleShape_t | RectShape_t | LineShape_t | PolygonShape_t | GameObject_subclass string

record 's GameObject =
  obj_id :: int
  obj_type :: int
  collidable :: bool
  shape :: "'s option"
  obj_class :: py_type

definition bbox_of :: "('s \<Rightarrow> rect) \<Rightarrow> (ref \<Rightarrow> 's GameObject) \<Rightarrow> ref \<Rightarrow> rect option" where
  "bbox_of get_bounding_rect heap obj = map_option get_bounding_rect (shape (heap obj))"

text \<open>
  \<open>CircleShape.get_bounding_rect\<close>: pygame's \<open>Rect\<close> truncates its float arguments
  towards zero.
\<close>

definition trunc :: "real \<Rightarrow> int" where
  "trunc v = (if v \<ge> 0 then \<lfloor>v\<rfloor> else \<lceil>v\<rceil>)"

definition circle_get_bounding_rect :: "CircleShape \<Rightarrow> rect" where
  "circle_get_bounding_rect s =
     Rect (trunc (vx (circle_position s) - radius s)) (trunc (vy (circle_position s) - radius s))
          (trunc (radius s * 2)) (trunc (radius s * 2))"

section \<open>engine/raycast.py\<close>

text \<open>
  \<open>create_ray_bounds\<close> and the start of \<open>raycast\<close>.  The default
  \<open>max_distance = float('inf')\<close> makes the coordinates of
  \<open>origin + direction * max_distance\<close> infinite, or NaN where the direction has a zero
  component, so the end point is a pair of floats that may be non-finite.  Python's
  \<open>min(a, b)\<close> is \<open>b if b < a else a\<close> and \<open>max(a, b)\<close> is \<open>b if b > a else a\<close>, and
  every comparison with NaN is false.  \<open>Rect\<close> casts each float argument to a C
  \<open>int\<close>: a finite one is truncated; what the cast makes of an infinity or a NaN is not
  fixed by the repository (nor by C) and is the parameter \<open>cast\<close>.
\<close>

datatype pyfloat = Fin real | PosInf | NegInf | NaN

fun end_coord :: "real \<Rightarrow> real \<Rightarrow> max_distance \<Rightarrow> pyfloat" where
  "end_coord origin_c direction_c (Finite m) = Fin (origin_c + direction_c * m)"
| "end_coord origin_c direction_c Infinity =
     (if direction_c > 0 then PosInf else if direction_c < 0 then NegInf else NaN)"

fun py_min :: "real \<Rightarrow> pyfloat \<Rightarrow> pyfloat" where
  "py_min a (Fin b) = (if b < a then Fin b else Fin a)"
| "py_min a PosInf = Fin a"
| "py_min a NegInf = NegInf"
| "py_min a NaN = Fin a"

fun py_max :: "real \<Rightarrow> pyfloat \<Rightarrow> pyfloat" where
  "py_max a (Fin b) = (if b > a then Fin b else Fin a)"
| "py_max a PosInf = PosInf"
| "py_max a NegInf = Fin a"
| "py_max a NaN = Fin a"

fun py_sub :: "pyfloat \<Rightarrow> pyfloat \<Rightarrow> pyfloat" where
  "py_sub (Fin a) (Fin b) = Fin (a - b)"
| "py_sub (Fin a) PosInf = NegInf"
| "py_sub (Fin a) NegInf = PosInf"
| "py_sub PosInf (Fin b) = PosInf"
| "py_sub PosInf NegInf = PosInf"
| "py_sub NegInf (Fin b) = NegInf"
| "py_sub NegInf PosInf = NegInf"
| "py_sub PosInf PosInf = NaN"
| "py_sub NegInf NegInf = NaN"
| "py_sub NaN b = NaN"
| "py_sub a NaN = NaN"

fun rect_arg :: "(pyfloat \<Rightarrow> int) \<Rightarrow> pyfloat \<Rightarrow> int" where
  "rect_arg cast (Fin v) = trunc v"
| "rect_arg cast PosInf = cast PosInf"
| "rect_arg cast NegInf = cast NegInf"
| "rect_arg cast NaN = cast NaN"

definition create_ray_bounds :: "(pyfloat \<Rightarrow> int) \<Rightarrow> vec2 \<Rightarrow> pyfloat \<times> pyfloat \<Rightarrow> rect" where
  "create_ray_bounds cast start end_point =
     (let min_x = py_min (vx start) (fst end_point);
          min_y = py_min (vy start) (snd end_point);
          max_x = py_max (vx start) (fst end_point);
          max_y = py_max (vy start) (snd end_point)
      in Rect (rect_arg cast min_x) (rect_arg cast min_y)
              (rect_arg cast (py_sub max_x min_x)) (rect_arg cast (py_sub max_y min_y)))"

definition ray_bounds :: "(pyfloat \<Rightarrow> int) \<Rightarrow> vec2 \<Rightarrow> vec2 \<Rightarrow> max_distance \<Rightarrow> rect" where
  "ray_bounds cast origin direction maxd =
     (let end_point = (end_coord (vx origin) (vx direction) maxd,
                       end_coord (vy origin) (vy direction) maxd)
      in create_ray_bounds cast origin end_point)"

text \<open>
  The loop \<open>for obj in potential_objects\<close>, with the hits collected so far.  An
  exception of \<open>intersects_ray\<close> leaves \<open>raycast\<close>.
\<close>

fun raycast_loop ::
  "('s \<Rightarrow> vec2 \<Rightarrow> vec2 \<Rightarrow> max_distance \<Rightarrow> py_error + RaycastHit option) \<Rightarrow>
   (ref \<Rightarrow> 's GameObject) \<Rightarrow> vec2 \<Rightarrow> vec2 \<Rightarrow> max_distance \<Rightarrow> int \<Rightarrow> int set \<Rightarrow>
   ref list \<Rightarrow> (ref \<times> RaycastHit) list \<Rightarrow> py_error + (ref \<times> RaycastHit) list" where
  "raycast_loop intersects_ray heap origin direction maxd hits_lim ignore_obj_tpyes [] hits =
     Inr hits"
| "raycast_loop intersects_ray heap origin direction maxd hits_lim ignore_obj_tpyes (obj # rest) hits =
     (if int (length hits) \<ge> hits_lim then Inr hits
      else if obj_type (heap obj) \<in> ignore_obj_tpyes
        then raycast_loop intersects_ray heap origin direction maxd hits_lim ignore_obj_tpyes rest hits
      else if \<not> collidable (heap obj)
        then raycast_loop intersects_ray heap origin direction maxd hits_lim ignore_obj_tpyes rest hits
      else case shape (heap obj) of
             None \<Rightarrow>
               raycast_loop intersects_ray heap origin direction maxd hits_lim ignore_obj_tpyes rest hits
           | Some s \<Rightarrow>
               (case intersects_ray s origin direction maxd of
                  Inl e \<Rightarrow> Inl e
                | Inr None \<Rightarrow>
                    raycast_loop intersects_ray heap origin direction maxd hits_lim
                      ignore_obj_tpyes rest hits
                | Inr (Some hit) \<Rightarrow>
                    raycast_loop intersects_ray heap origin direction maxd hits_lim
                      ignore_obj_tpyes rest (hits @ [(obj, hit)])))"

definition raycast ::
  "('s \<Rightarrow> vec2 \<Rightarrow> vec2 \<Rightarrow> max_distance \<Rightarrow> py_error + RaycastHit option) \<Rightarrow>
   (pyfloat \<Rightarrow> int) \<Rightarrow>
   (ref \<Rightarrow> 's GameObject) \<Rightarrow> ref SpatialQuadTree \<Rightarrow> vec2 \<Rightarrow> vec2 \<Rightarrow> max_distance \<Rightarrow> int \<Rightarrow>
   int set \<Rightarrow> py_error + (ref \<times> RaycastHit) list" where
  "raycast intersects_ray cast heap spatial_tree origin direction maxd hits_lim ignore_obj_tpyes =
     (let potential_objects = retrieve (ray_bounds cast origin direction maxd) spatial_tree
      in raycast_loop intersects_ray heap origin direction maxd hits_lim ignore_obj_tpyes
           potential_objects [])"

text \<open>The default arguments: \<open>max_distance = float('inf')\<close>, \<open>hits_lim = -1\<close>.\<close>

definition raycast_default ::
  "('s \<Rightarrow> vec2 \<Rightarrow> vec2 \<Rightarrow> max_distance \<Rightarrow> py_error + RaycastHit option) \<Rightarrow>
   (pyfloat \<Rightarrow> int) \<Rightarrow>
   (ref \<Rightarrow> 's GameObject) \<Rightarrow> ref SpatialQuadTree \<Rightarrow> vec2 \<Rightarrow> vec2 \<Rightarrow>
   py_error + (ref \<times> RaycastHit) list" where
  "raycast_default intersects_ray cast heap spatial_tree origin direction =
     raycast intersects_ray cast heap spatial_tree origin direction Infinity (-1) {}"

section \<open>engine/collision.py: the dispatcher\<close>

text \<open>
  The registry maps a pair of Python types to a handler.  The ten detection functions
  are named, not unfolded: the dispatcher never looks inside them, so calling one is the
  parameter \<open>call\<close>.  \<open>add\<close> stores the handler under \<open>(type_a, type_b)\<close> and then
  the lambda that swaps the arguments under \<open>(type_b, type_a)\<close>.
\<close>

datatype detector_func =
  circle_intersects_circle_f | rect_intersects_circle_f | line_intersects_circle_f
| polygon_intersects_circle_f | rect_intersects_rect_f | rect_intersects_line_f
| rect_intersects_polygon_f | line_intersects_line_f | line_intersects_polygon_f
| polygon_intersects_polygon_f

datatype handler = Direct detector_func | Swapped detector_func

type_synonym registry = "py_type \<times> py_type \<Rightarrow> handler option"

definition CollisionDetector_add :: "registry \<Rightarrow> py_type \<Rightarrow> py_type \<Rightarrow> detector_func \<Rightarrow> registry" where
  "CollisionDetector_add reg type_a type_b h =
     (reg((type_a, type_b) \<mapsto> Direct h))((type_b, type_a) \<mapsto> Swapped h)"

definition default_detectors :: "(py_type \<times> py_type \<times> detector_func) list" where
  "default_detectors =
     [(CircleShape_t, CircleShape_t, circle_intersects_circle_f),
      (RectShape_t, CircleShape_t, rect_intersects_circle_f),
      (LineShape_t, CircleShape_t, line_intersects_circle_f),
      (PolygonShape_t, CircleShape_t, polygon_intersects_circle_f),
      (RectShape_t, RectShape_t, rect_intersects_rect_f),
      (RectShape_t, LineShape_t, rect_intersects_line_f),
      (RectShape_t, PolygonShape_t, rect_intersects_polygon_f),
      (LineShape_t, LineShape_t, line_intersects_line_f),
      (LineShape_t, PolygonShape_t, line_intersects_polygon_f),
      (PolygonShape_t, PolygonShape_t, polygon_intersects_polygon_f)]"

text \<open>\<open>CollisionDetector.__init__\<close>, starting from the class-level \<open>_registry = {}\<close>.\<close>

definition CollisionDetector_init :: "registry \<Rightarrow> (py_type \<times> py_type \<times> detector_func) list \<Rightarrow> registry" where
  "CollisionDetector_init reg detectors =
     fold (\<lambda>(type_a, type_b, h) r. CollisionDetector_add r type_a type_b h) detectors reg"

definition default_registry :: registry where
  "default_registry = CollisionDetector_init Map.empty default_detectors"

fun call_handler :: "(detector_func \<Rightarrow> 'a \<Rightarrow> 'a \<Rightarrow> CollisionInfo option) \<Rightarrow> handler \<Rightarrow> 'a \<Rightarrow> 'a
    \<Rightarrow> CollisionInfo option" where
  "call_handler call (Direct h) a b = call h a b"
| "call_handler call (Swapped h) b a = call h a b"

definition detect ::
  "registry \<Rightarrow> ('a \<Rightarrow> py_type) \<Rightarrow> (detector_func \<Rightarrow> 'a \<Rightarrow> 'a \<Rightarrow> CollisionInfo option) \<Rightarrow> 'a \<Rightarrow> 'a
     \<Rightarrow> py_error + CollisionInfo option" where
  "detect reg type_of call a b =
     (case reg (type_of a, type_of b) of
        None \<Rightarrow> Inl NotImplementedError
      | Some h \<Rightarrow> Inr (call_handler call h a b))"

section \<open>engine/engine.py\<close>

text \<open>
  \<open>game_objs\<close> and \<open>game_objs_by_type\<close> are assigned in the class body of \<open>Engine\<close>
  and never in \<open>__init__\<close>: they are attributes of the class, one dictionary each for
  every instance.  \<open>spatial_tree\<close> is assigned in \<open>__init__\<close> and \<open>next_obj_id\<close> by
  \<open>self.next_obj_id += 1\<close>: those are attributes of the instance, and an instance that
  has not counted yet reads the class's \<open>next_obj_id = 0\<close>.  The world holds the entity
  store, the class attributes and the instances by identity.  A dictionary is an
  association list in insertion order.
\<close>

record Engine =
  next_obj_id :: "int option"
  spatial_tree :: "ref SpatialQuadTree"

record 's world =
  heap :: "ref \<Rightarrow> 's GameObject"
  game_objs :: "(int \<times> ref) list"
  game_objs_by_type :: "(int \<times> (int \<times> ref) list) list"
  instances :: "nat \<Rightarrow> Engine"

definition Engine_init :: "'s world \<Rightarrow> nat \<Rightarrow> rect \<Rightarrow> 's world" where
  "Engine_init w self world_bounds =
     w\<lparr>instances := (instances w)
         (self := \<lparr>next_obj_id = None, spatial_tree = SpatialQuadTree_init world_bounds 10 5 0\<rparr>)\<rparr>"

definition next_id :: "'s world \<Rightarrow> nat \<Rightarrow> int \<times> 's world" where
  "next_id w self =
     (let e = instances w self;
          n = (case next_obj_id e of None \<Rightarrow> 0 | Some k \<Rightarrow> k)
      in (n, w\<lparr>instances := (instances w)(self := e\<lparr>next_obj_id := Some (n + 1)\<rparr>)\<rparr>))"

definition add_game_object :: "'s world \<Rightarrow> nat \<Rightarrow> ref \<Rightarrow> int \<times> 's world" where
  "add_game_object w self obj =
     (let (oid, w1) = next_id w self;
          w2 = w1\<lparr>heap := (heap w1)(obj := (heap w1 obj)\<lparr>obj_id := oid\<rparr>)\<rparr>;
          tp = obj_type (heap w2 obj);
          of_type = (case map_of (game_objs_by_type w2) tp of None \<Rightarrow> [] | Some d \<Rightarrow> d);
          w3 = w2\<lparr>game_objs_by_type :=
                    AList.update tp (AList.update oid obj of_type) (game_objs_by_type w2)\<rparr>;
          w4 = w3\<lparr>game_objs := AList.update oid obj (game_objs w3)\<rparr>
      in (oid, w4))"

definition remove_game_object :: "'s world \<Rightarrow> nat \<Rightarrow> int \<Rightarrow> 's world" where
  "remove_game_object w self oid =
     (case map_of (game_objs w) oid of
        None \<Rightarrow> w
      | Some obj_to_remove \<Rightarrow>
          let tp = obj_type (heap w obj_to_remove);
              w1 = (case map_of (game_objs_by_type w) tp of
                      None \<Rightarrow> w
                    | Some d \<Rightarrow>
                        if oid \<in> fst ` set d
                        then (let d' = AList.delete oid d
                              in if d' = []
                                 then w\<lparr>game_objs_by_type := AList.delete tp (game_objs_by_type w)\<rparr>
                                 else w\<lparr>game_objs_by_type := AList.update tp d' (game_objs_by_type w)\<rparr>)
                        else w)
          in w1\<lparr>game_objs := AList.delete oid (game_objs w1)\<rparr>)"

definition get_game_objects_by_type :: "'s world \<Rightarrow> nat \<Rightarrow> int \<Rightarrow> (int \<times> ref) list option" where
  "get_game_objects_by_type w self tp = map_of (game_objs_by_type w) tp"

definition get_game_object_by_id :: "'s world \<Rightarrow> nat \<Rightarrow> int \<Rightarrow> ref option" where
  "get_game_object_by_id w self oid = map_of (game_objs w) oid"

definition get_objects_in_rect :: "'s world \<Rightarrow> nat \<Rightarrow> rect \<Rightarrow> ref list" where
  "get_objects_in_rect w self r = retrieve r (spatial_tree (instances w self))"

text \<open>
  \<open>Engine.update\<close>.  What an entity does in \<open>update\<close> and \<open>on_collision\<close> is its
  subclass's business: both are parameters that transform the world.  The four loops of
  the method are \<open>update_entities\<close>, \<open>reposition\<close>, \<open>detect_collisions\<close> (with
  \<open>detect_candidates\<close> for its inner loop) and \<open>dispatch\<close>.  The method has no
  \<open>try\<close>: an exception of \<open>detect\<close> leaves it.  \<open>detect\<close> receives the two entities
  themselves, so the registry is asked for their classes.
\<close>

fun update_entities ::
  "(ref \<Rightarrow> nat \<Rightarrow> real \<Rightarrow> 's world \<Rightarrow> 's world \<times> GameObjectUpdateRes option) \<Rightarrow> nat \<Rightarrow> real \<Rightarrow>
   ref list \<Rightarrow> 's world \<Rightarrow> ref list \<Rightarrow> 's world \<times> ref list" where
  "update_entities obj_update self dt [] w objs_moved = (w, objs_moved)"
| "update_entities obj_update self dt (game_obj # rest) w objs_moved =
     (let (w', objUpd) = obj_update game_obj self dt w
      in update_entities obj_update self dt rest w'
           (case objUpd of
              None \<Rightarrow> objs_moved
            | Some res \<Rightarrow> if object_moved res then objs_moved @ [game_obj] else objs_moved))"

fun reposition :: "('s \<Rightarrow> rect) \<Rightarrow> nat \<Rightarrow> ref list \<Rightarrow> 's world \<Rightarrow> 's world" where
  "reposition get_bounding_rect self [] w = w"
| "reposition get_bounding_rect self (moved_obj # rest) w =
     reposition get_bounding_rect self rest
       (w\<lparr>instances := (instances w)
            (self := (instances w self)
               \<lparr>spatial_tree := update_object (bbox_of get_bounding_rect (heap w)) moved_obj
                                  (spatial_tree (instances w self))\<rparr>)\<rparr>)"

fun detect_candidates ::
  "registry \<Rightarrow> (detector_func \<Rightarrow> ref \<Rightarrow> ref \<Rightarrow> CollisionInfo option) \<Rightarrow> 's world \<Rightarrow> ref \<Rightarrow> ref list \<Rightarrow>
   (CollisionInfo \<times> ref \<times> ref) list \<Rightarrow> py_error + (CollisionInfo \<times> ref \<times> ref) list" where
  "detect_candidates reg call w moved_obj [] collisions = Inr collisions"
| "detect_candidates reg call w moved_obj (collision_obj # rest) collisions =
     (if moved_obj = collision_obj then detect_candidates reg call w moved_obj rest collisions
      else case detect reg (\<lambda>obj. obj_class (heap w obj)) call moved_obj collision_obj of
             Inl e \<Rightarrow> Inl e
           | Inr None \<Rightarrow> detect_candidates reg call w moved_obj rest collisions
           | Inr (Some collision) \<Rightarrow>
               detect_candidates reg call w moved_obj rest
                 (collisions @ [(collision, moved_obj, collision_obj)]))"

fun detect_collisions ::
  "registry \<Rightarrow> (detector_func \<Rightarrow> ref \<Rightarrow> ref \<Rightarrow> CollisionInfo option) \<Rightarrow> ('s \<Rightarrow> rect) \<Rightarrow> nat \<Rightarrow>
   's world \<Rightarrow> ref list \<Rightarrow> (CollisionInfo \<times> ref \<times> ref) list \<Rightarrow>
   py_error + (CollisionInfo \<times> ref \<times> ref) list" where
  "detect_collisions reg call get_bounding_rect self w [] collisions = Inr collisions"
| "detect_collisions reg call get_bounding_rect self w (moved_obj # rest) collisions =
     (case shape (heap w moved_obj) of
        None \<Rightarrow> detect_collisions reg call get_bounding_rect self w rest collisions
      | Some s \<Rightarrow>
          (let shape_bounding_rect = get_bounding_rect s;
               collision_objs = retrieve shape_bounding_rect (spatial_tree (instances w self))
           in case detect_candidates reg call w moved_obj collision_objs collisions of
                Inl e \<Rightarrow> Inl e
              | Inr collisions' \<Rightarrow>
                  detect_collisions reg call get_bounding_rect self w rest collisions'))"

fun dispatch ::
  "(ref \<Rightarrow> nat \<Rightarrow> ref \<Rightarrow> CollisionInfo \<Rightarrow> 's world \<Rightarrow> 's world) \<Rightarrow> nat \<Rightarrow>
   (CollisionInfo \<times> ref \<times> ref) list \<Rightarrow> 's world \<Rightarrow> 's world" where
  "dispatch on_collision self [] w = w"
| "dispatch on_collision self ((collision_info, obj1, obj2) # rest) w =
     dispatch on_collision self rest
       (on_collision obj2 self obj1 collision_info (on_collision obj1 self obj2 collision_info w))"

definition Engine_update ::
  "(ref \<Rightarrow> nat \<Rightarrow> real \<Rightarrow> 's world \<Rightarrow> 's world \<times> GameObjectUpdateRes option) \<Rightarrow>
   (ref \<Rightarrow> nat \<Rightarrow> ref \<Rightarrow> CollisionInfo \<Rightarrow> 's world \<Rightarrow> 's world) \<Rightarrow>
   registry \<Rightarrow> (detector_func \<Rightarrow> ref \<Rightarrow> ref \<Rightarrow> CollisionInfo option) \<Rightarrow> ('s \<Rightarrow> rect) \<Rightarrow>
   's world \<Rightarrow> nat \<Rightarrow> real \<Rightarrow> py_error + 's world" where
  "Engine_update obj_update on_collision reg call get_bounding_rect w self dt =
     (let (w1, objs_moved) = update_entities obj_update self dt (map snd (game_objs w)) w [];
          w2 = reposition get_bounding_rect self objs_moved w1
      in case detect_collisions reg call get_bounding_rect self w2 objs_moved [] of
           Inl e \<Rightarrow> Inl e
         | Inr collisions \<Rightarrow> Inr (dispatch on_collision self collisions w2))"

section \<open>A world of two circles\<close>

text \<open>
  The entity of the benchmark, \<open>DummyGameObject\<close>: a collidable circle of type \<open>1\<close>
  whose \<open>update\<close> changes nothing and reports that it moved, and whose
  \<open>on_collision\<close> does nothing.
\<close>

definition DummyGameObject :: "vec2 \<Rightarrow> real \<Rightarrow> int \<Rightarrow> CircleShape GameObject" where
  "DummyGameObject pos r tp =
     \<lparr>obj_id = 0, obj_type = tp, collidable = True,
      shape = Some \<lparr>circle_position = pos, radius = r\<rparr>,
      obj_class = GameObject_subclass ''DummyGameObject''\<rparr>"

definition dummy_update :: "ref \<Rightarrow> nat \<Rightarrow> real \<Rightarrow> 's world \<Rightarrow> 's world \<times> GameObjectUpdateRes option" where
  "dummy_update obj self dt w = (w, Some \<lparr>object_moved = True\<rparr>)"

definition dummy_on_collision :: "ref \<Rightarrow> nat \<Rightarrow> ref \<Rightarrow> CollisionInfo \<Rightarrow> 's world \<Rightarrow> 's world" where
  "dummy_on_collision obj self other collision w = w"

text \<open>
  Engine \<open>0\<close> over the region \<open>Rect 0 0 128 128\<close>, with two overlapping circles
  registered: entity \<open>10\<close> at \<open>(10, 10)\<close> and entity \<open>11\<close> at \<open>(11, 10)\<close>, both of radius
  \<open>2\<close>.
\<close>

definition world0 :: "CircleShape world" where
  "world0 =
     Engine_init
       \<lparr>heap = (\<lambda>_. DummyGameObject (Vector2 0 0) 0 0)
                 (10 := DummyGameObject (Vector2 10 10) 2 1,
                  11 := DummyGameObject (Vector2 11 10) 2 1),
        game_objs = [], game_objs_by_type = [], instances = (\<lambda>_. \<lparr>next_obj_id = None,
          spatial_tree = SpatialQuadTree_init (Rect 0 0 0 0) 10 5 0\<rparr>)\<rparr>
       0 (Rect 0 0 128 128)"

definition world2 :: "CircleShape world" where
  "world2 = snd (add_game_object (snd (add_game_object world0 0 10)) 0 11)"

text \<open>
  The same world after the first two loops of a tick have run (both circles report that
  they moved and are placed in the index), and a world with a second engine instance.
\<close>

definition world2_moved :: "CircleShape world" where
  "world2_moved = world2\<lparr>instances := (instances world2)
      (0 := \<lparr>next_obj_id = Some 2,
             spatial_tree = SpatialQuadTree (Rect 0 0 128 128) 10 5 0 [10, 11] [] 0 0\<rparr>)\<rparr>"

definition two_engines :: "CircleShape world" where
  "two_engines = Engine_init world0 1 (Rect 0 0 128 128)"

text \<open>
  A scene for a ray: one collidable circle of radius \<open>2\<close> at \<open>(6, 8)\<close>, entity \<open>10\<close>,
  inserted in an index over \<open>Rect (-64) (-64) 128 128\<close>.  The ray starts at \<open>(0, 0)\<close>,
  inside the region, and runs along the unit vector \<open>(3/5, 4/5)\<close> through the centre of
  the circle.
\<close>

definition ray_scene_heap :: "ref \<Rightarrow> CircleShape GameObject" where
  "ray_scene_heap = (\<lambda>_. DummyGameObject (Vector2 6 8) 2 1)"

definition ray_scene_tree :: "ref SpatialQuadTree" where
  "ray_scene_tree =
     insert_obj (bbox_of circle_get_bounding_rect ray_scene_heap) 10
       (SpatialQuadTree_init (Rect (-64) (-64) 128 128) 10 5 0)"

definition ray_scene_hit :: RaycastHit where
  "ray_scene_hit = \<lparr>point = Vector2 (24/5) (32/5), normal = Vector2 (-3/5) (-4/5), distance = 8\<rparr>"

section \<open>Vocabulary for the spatial index\<close>

text \<open>
  A box that the index can hold has positive size and collides with the region of the
  index (\<open>insert\<close> ignores every other box).
\<close>

definition overlaps :: "rect \<Rightarrow> rect \<Rightarrow> bool" where
  "overlaps r b = (0 < rect_width r \<and> 0 < rect_height r \<and> colliderect b r)"

text \<open>
  The regions of an index whose quadrants are exact: every region has positive size, the
  four children of a node are the four quarters of its region, one level further down,
  and halving stays exact down to \<open>max_levels\<close> (width and height of a node at level
  \<open>l\<close> are multiples of \<open>2 ^ (max_levels - l)\<close>).  \<open>split\<close> halves with \<open>//\<close>, so
  only such regions are covered by their quadrants.
\<close>

fun exact_quadrants :: "'o SpatialQuadTree \<Rightarrow> bool" where
  "exact_quadrants (SpatialQuadTree b mo ml lv os ns vm hm) =
     (0 < rect_width b \<and> 0 < rect_height b \<and>
      2 ^ nat (ml - lv) dvd rect_width b \<and> 2 ^ nat (ml - lv) dvd rect_height b \<and>
      (ns = [] \<or>
       (lv < ml \<and>
        vm = rect_x b + rect_width b div 2 \<and> hm = rect_y b + rect_height b div 2 \<and>
        map bounds ns =
          [Rect vm (rect_y b) (rect_width b div 2) (rect_height b div 2),
           Rect (rect_x b) (rect_y b) (rect_width b div 2) (rect_height b div 2),
           Rect (rect_x b) hm (rect_width b div 2) (rect_height b div 2),
           Rect vm hm (rect_width b div 2) (rect_height b div 2)] \<and>
        (\<forall>c \<in> set ns. max_objects c = mo \<and> max_levels c = ml \<and> level c = lv + 1 \<and>
                       exact_quadrants c))))"

text \<open>
  An entity is on the path of a box when it is stored in a node that \<open>retrieve\<close> is
  certain to visit for that box: the root, or the child that \<open>get_index\<close> selects, as
  long as the regions collide with the box.
\<close>

inductive on_path :: "rect \<Rightarrow> 'o \<Rightarrow> 'o SpatialQuadTree \<Rightarrow> bool" where
  here: "colliderect (bounds t) r \<Longrightarrow> obj \<in> set (objects t) \<Longrightarrow> on_path r obj t"
| below: "colliderect (bounds t) r \<Longrightarrow> nodes t \<noteq> [] \<Longrightarrow> get_index t r \<noteq> -1 \<Longrightarrow>
          nat (get_index t r) < length (nodes t) \<Longrightarrow>
          on_path r obj (nodes t ! nat (get_index t r)) \<Longrightarrow> on_path r obj t"

text \<open>Two nodes with the same region, capacity, depth limit and level.\<close>

definition same_frame :: "'o SpatialQuadTree \<Rightarrow> 'o SpatialQuadTree \<Rightarrow> bool" where
  "same_frame t t' =
     (bounds t' = bounds t \<and> max_objects t' = max_objects t \<and> max_levels t' = max_levels t \<and>
      level t' = level t)"

text \<open>
  Two example indexes over \<open>Rect 0 0 128 128\<close> holding entity \<open>10\<close> at
  \<open>Rect 8 8 4 4\<close> and entity \<open>20\<close> at \<open>Rect 100 100 4 4\<close>: one of capacity \<open>1\<close>,
  which has split, and one of the default capacity \<open>10\<close>, which has not.  Then entity
  \<open>10\<close> moves to \<open>Rect 100 20 4 4\<close>.
\<close>

definition boxes_before :: "nat \<Rightarrow> rect option" where
  "boxes_before = (\<lambda>_. None)(10 \<mapsto> Rect 8 8 4 4, 20 \<mapsto> Rect 100 100 4 4)"

definition boxes_after :: "nat \<Rightarrow> rect option" where
  "boxes_after = boxes_before(10 \<mapsto> Rect 100 20 4 4)"

definition split_index :: "nat SpatialQuadTree" where
  "split_index =
     insert_obj boxes_before 20
       (insert_obj boxes_before 10 (SpatialQuadTree_init (Rect 0 0 128 128) 1 5 0))"

definition unsplit_index :: "nat SpatialQuadTree" where
  "unsplit_index =
     insert_obj boxes_before 20
       (insert_obj boxes_before 10 (SpatialQuadTree_init (Rect 0 0 128 128) 10 5 0))"

section \<open>Properties of the physics integrator\<close>

text \<open>
  Claim C7.  A static body ignores every applied force (the whole body, and so its force
  buffer, is unchanged), and \<open>integrate\<close> returns "did not move" without touching any
  field, in particular the position.
\<close>

theorem static_body_unmoved:
  assumes "is_static b"
  shows "forces (apply_force b force) = forces b
       \<and> snd (integrate (apply_force b force) dt) = \<lparr>object_moved = False\<rparr>
       \<and> position (fst (integrate (apply_force b force) dt)) = position b
       \<and> fst (integrate b dt) = b
       \<and> snd (integrate b dt) = \<lparr>object_moved = False\<rparr>"
  using assms by (simp add: apply_force_def integrate_def)

theorem static_body_unmoved_witness:
  "is_static (PhysicsBody_init (Vector2 3 4) (Vector2 1 1) (Vector2 0 0) 2 0.1 0.2 True 0 0 0.1 False 0)
   \<and> snd (integrate (apply_force
        (PhysicsBody_init (Vector2 3 4) (Vector2 1 1) (Vector2 0 0) 2 0.1 0.2 True 0 0 0.1 False 0)
        (Vector2 5 (-7))) 1) = \<lparr>object_moved = False\<rparr>
   \<and> position (fst (integrate (apply_force
        (PhysicsBody_init (Vector2 3 4) (Vector2 1 1) (Vector2 0 0) 2 0.1 0.2 True 0 0 0.1 False 0)
        (Vector2 5 (-7))) 1)) = Vector2 3 4"
proof -
  have st: "is_static (PhysicsBody_init (Vector2 3 4) (Vector2 1 1) (Vector2 0 0) 2 0.1 0.2 True 0 0 0.1 False 0)"
    by (simp add: PhysicsBody_init_def)
  show ?thesis
    using st static_body_unmoved [OF st, of "Vector2 5 (-7)" 1]
    by (simp add: PhysicsBody_init_def)
qed

text \<open>
  Claim C10.  Right after construction \<open>inverse_mass\<close> is \<open>0\<close> for a static body or a
  body of mass \<open>\<le> 0\<close>, and \<open>1 / mass\<close> otherwise; hence an impulse applied to a freshly
  constructed body of mass \<open>\<le> 0\<close> leaves its velocity as it was, static or not.
\<close>

theorem inverse_mass_after_init:
  "inverse_mass (PhysicsBody_init pos vel acc m dr fr st rot av ad er tq)
     = (if st \<or> m \<le> 0 then 0 else 1 / m)
   \<and> (m \<le> 0 \<longrightarrow>
        velocity (apply_impulse (PhysicsBody_init pos vel acc m dr fr st rot av ad er tq) impulse)
          = vel)"
  by (cases vel) (simp add: PhysicsBody_init_def apply_impulse_def vadd_def vscale_def)

theorem inverse_mass_after_init_witness:
  "inverse_mass (PhysicsBody_init (Vector2 0 0) (Vector2 2 3) (Vector2 0 0) (-1) 0.1 0.2 False 0 0 0.1 False 0) = 0
   \<and> (-1::real) \<le> 0
   \<and> \<not> is_static (PhysicsBody_init (Vector2 0 0) (Vector2 2 3) (Vector2 0 0) (-1) 0.1 0.2 False 0 0 0.1 False 0)
   \<and> velocity (apply_impulse
        (PhysicsBody_init (Vector2 0 0) (Vector2 2 3) (Vector2 0 0) (-1) 0.1 0.2 False 0 0 0.1 False 0)
        (Vector2 10 10)) = Vector2 2 3"
  using inverse_mass_after_init [of "Vector2 0 0" "Vector2 2 3" "Vector2 0 0" "-1" "0.1" "0.2"
      False 0 0 "0.1" False 0 "Vector2 10 10"]
  by (simp add: PhysicsBody_init_def)

section \<open>Properties of rectangle against rectangle\<close>








section \<open>Properties of the ray against a circle\<close>

lemma sqrt16: "sqrt 16 = 4"
  using real_sqrt_abs [of 4] by simp

lemma circle_ray_example:
  "circle_intersects_ray \<lparr>circle_position = Vector2 10 0, radius = 2\<rparr> (Vector2 0 0) (Vector2 1 0) Infinity
     = Inr (Some \<lparr>point = Vector2 8 0, normal = Vector2 (-1) 0, distance = 8\<rparr>)"
proof -
  have s: "sqrt 16 = 4" using real_sqrt_abs[of 4] by simp
  show ?thesis
    by (simp add: circle_intersects_ray_def ray_t1_def ray_t2_def vsub_def vadd_def vscale_def dot_def
        Let_def normalize_def vlength_def s)
qed

lemma quad_expand:
  "dot (vsub (ray_point origin direction t) (circle_position s))
       (vsub (ray_point origin direction t) (circle_position s)) - radius s * radius s
   = dot direction direction * t * t
     + 2 * dot (vsub origin (circle_position s)) direction * t
     + (dot (vsub origin (circle_position s)) (vsub origin (circle_position s)) - radius s * radius s)"
  by (simp add: ray_point_def dot_def vsub_def vadd_def vscale_def algebra_simps)

lemma root_iff:
  fixes a b c t :: real
  assumes "a \<noteq> 0" "0 \<le> b * b - 4 * a * c"
  shows "(a * t * t + b * t + c = 0) =
         (t = (- b - sqrt (b * b - 4 * a * c)) / (2 * a) \<or> t = (- b + sqrt (b * b - 4 * a * c)) / (2 * a))"
proof -
  define D where "D = b * b - 4 * a * c"
  have sq: "sqrt D * sqrt D = D" using assms(2) by (simp add: D_def)
  have e: "(2 * a * t + b) * (2 * a * t + b) - D = 4 * a * (a * t * t + b * t + c)"
    by (simp add: D_def algebra_simps)
  have "(a * t * t + b * t + c = 0) = (4 * a * (a * t * t + b * t + c) = 0)"
    using assms(1) by simp
  also have "\<dots> = ((2 * a * t + b) * (2 * a * t + b) = D)"
    unfolding e[symmetric] by auto
  finally have "(a * t * t + b * t + c = 0) = ((2 * a * t + b) * (2 * a * t + b) = D)" .
  also have "\<dots> = ((2 * a * t + b - sqrt D) * (2 * a * t + b + sqrt D) = 0)"
    using sq by (auto simp add: algebra_simps)
  also have "\<dots> = (2 * a * t + b = sqrt D \<or> 2 * a * t + b = - sqrt D)"
    by auto
  also have "\<dots> = (t = (- b - sqrt D) / (2 * a) \<or> t = (- b + sqrt D) / (2 * a))"
    using assms(1) by (auto simp add: field_simps)
  finally show ?thesis unfolding D_def .
qed

lemma on_circle_iff:
  assumes "dot direction direction \<noteq> 0"
      and "0 \<le> (2 * dot (vsub origin (circle_position s)) direction) * (2 * dot (vsub origin (circle_position s)) direction)
             - 4 * dot direction direction * (dot (vsub origin (circle_position s)) (vsub origin (circle_position s)) - radius s * radius s)"
  shows "on_circle s (ray_point origin direction t) =
         (t = ray_t1 s origin direction \<or> t = ray_t2 s origin direction)"
proof -
  have "on_circle s (ray_point origin direction t) =
        (dot direction direction * t * t
     + 2 * dot (vsub origin (circle_position s)) direction * t
     + (dot (vsub origin (circle_position s)) (vsub origin (circle_position s)) - radius s * radius s) = 0)"
    unfolding on_circle_def using quad_expand[of origin direction t s] by auto
  also have "\<dots> = (t = ray_t1 s origin direction \<or> t = ray_t2 s origin direction)"
    unfolding ray_t1_def ray_t2_def Let_def
    by (rule root_iff[OF assms])
  finally show ?thesis .
qed

lemma t1_le_t2:
  assumes "0 \<le> (2 * dot (vsub origin (circle_position s)) direction) * (2 * dot (vsub origin (circle_position s)) direction)
             - 4 * dot direction direction * (dot (vsub origin (circle_position s)) (vsub origin (circle_position s)) - radius s * radius s)"
  shows "ray_t1 s origin direction \<le> ray_t2 s origin direction"
proof -
  have a: "0 \<le> dot direction direction" by (simp add: dot_def)
  show ?thesis unfolding ray_t1_def ray_t2_def Let_def
    using a assms by (intro divide_right_mono) auto
qed

lemma disc_unfold:
  "ray_discriminant s origin direction =
     (2 * dot (vsub origin (circle_position s)) direction) * (2 * dot (vsub origin (circle_position s)) direction)
       - 4 * dot direction direction * (dot (vsub origin (circle_position s)) (vsub origin (circle_position s)) - radius s * radius s)"
  by (simp add: ray_discriminant_def Let_def)

lemma on_circle_length:
  assumes "on_circle s p"
  shows "vlength (vsub p (circle_position s)) = \<bar>radius s\<bar>"
proof -
  have "vx (vsub p (circle_position s)) * vx (vsub p (circle_position s))
        + vy (vsub p (circle_position s)) * vy (vsub p (circle_position s)) = radius s * radius s"
    using assms by (simp add: on_circle_def dot_def)
  then show ?thesis by (simp add: vlength_def real_sqrt_abs2)
qed

lemma hit_value:
  assumes "on_circle s (ray_point origin direction t)" "radius s \<noteq> 0"
  shows "(case normalize (vsub (vadd origin (vscale direction t)) (circle_position s)) of
            Inl e \<Rightarrow> Inl e
          | Inr n \<Rightarrow> Inr (Some \<lparr>point = vadd origin (vscale direction t), normal = n, distance = t\<rparr>))
         = Inr (Some (hit_at s origin direction t))"
  using on_circle_length[OF assms(1)] assms(2)
  by (simp add: normalize_def hit_at_def ray_point_def)

lemma no_root:
  fixes a b c t :: real
  assumes "b * b - 4 * a * c < 0"
  shows "a * t * t + b * t + c \<noteq> 0"
proof
  assume z: "a * t * t + b * t + c = 0"
  have "(2 * a * t + b) * (2 * a * t + b) - (b * b - 4 * a * c) = 4 * a * (a * t * t + b * t + c)"
    by (simp add: algebra_simps)
  then have "(2 * a * t + b) * (2 * a * t + b) = b * b - 4 * a * c" using z by simp
  moreover have "0 \<le> (2 * a * t + b) * (2 * a * t + b)" by simp
  ultimately show False using assms by linarith
qed

text \<open>
  Claim C6.  The ray from \<open>(0,0)\<close> along \<open>(1,0)\<close> with no distance limit hits the circle
  at \<open>(10,0)\<close> of radius \<open>2\<close> at distance \<open>8\<close> with normal \<open>(-1,0)\<close>.  In general,
  for a direction other than zero and a radius other than \<open>0\<close>: with a negative
  discriminant the ray never meets the circle and there is no hit; otherwise the ray
  meets the circle exactly at the parameters \<open>t1 \<le> t2\<close>, and the result is the hit at
  \<open>t1\<close> when \<open>t1\<close> is admissible, else the hit at \<open>t2\<close> when \<open>t2\<close> is admissible,
  else no hit.  A zero direction raises \<open>ZeroDivisionError\<close>.
\<close>

theorem circle_ray_hit:
  "circle_intersects_ray \<lparr>circle_position = Vector2 10 0, radius = 2\<rparr> (Vector2 0 0) (Vector2 1 0) Infinity
     = Inr (Some \<lparr>point = Vector2 8 0, normal = Vector2 (-1) 0, distance = 8\<rparr>)
   \<and> (ray_discriminant s origin direction < 0 \<longrightarrow>
        circle_intersects_ray s origin direction maxd = Inr None
      \<and> (\<forall>t. \<not> on_circle s (ray_point origin direction t)))
   \<and> (0 \<le> ray_discriminant s origin direction \<and> dot direction direction = 0 \<longrightarrow>
        circle_intersects_ray s origin direction maxd = Inl ZeroDivisionError)
   \<and> (0 \<le> ray_discriminant s origin direction \<and> dot direction direction \<noteq> 0 \<and> radius s \<noteq> 0 \<longrightarrow>
        ray_t1 s origin direction \<le> ray_t2 s origin direction
      \<and> (\<forall>t. on_circle s (ray_point origin direction t)
               = (t = ray_t1 s origin direction \<or> t = ray_t2 s origin direction))
      \<and> circle_intersects_ray s origin direction maxd =
          (if admissible (ray_t1 s origin direction) maxd
             then Inr (Some (hit_at s origin direction (ray_t1 s origin direction)))
           else if admissible (ray_t2 s origin direction) maxd
             then Inr (Some (hit_at s origin direction (ray_t2 s origin direction)))
           else Inr None))"
proof (intro conjI impI allI)
  show "circle_intersects_ray \<lparr>circle_position = Vector2 10 0, radius = 2\<rparr> (Vector2 0 0) (Vector2 1 0) Infinity
     = Inr (Some \<lparr>point = Vector2 8 0, normal = Vector2 (-1) 0, distance = 8\<rparr>)"
    by (rule circle_ray_example)
next
  assume d: "ray_discriminant s origin direction < 0"
  then show "circle_intersects_ray s origin direction maxd = Inr None"
    by (simp add: circle_intersects_ray_def ray_discriminant_def Let_def)
next
  fix t
  assume d: "ray_discriminant s origin direction < 0"
  have "dot direction direction * t * t
     + 2 * dot (vsub origin (circle_position s)) direction * t
     + (dot (vsub origin (circle_position s)) (vsub origin (circle_position s)) - radius s * radius s) \<noteq> 0"
    by (rule no_root) (use d in \<open>simp add: disc_unfold\<close>)
  then show "\<not> on_circle s (ray_point origin direction t)"
    unfolding on_circle_def using quad_expand[of origin direction t s] by auto
next
  assume "0 \<le> ray_discriminant s origin direction \<and> dot direction direction = 0"
  then show "circle_intersects_ray s origin direction maxd = Inl ZeroDivisionError"
    by (simp add: circle_intersects_ray_def ray_discriminant_def Let_def)
next
  assume h: "0 \<le> ray_discriminant s origin direction \<and> dot direction direction \<noteq> 0 \<and> radius s \<noteq> 0"
  then show "ray_t1 s origin direction \<le> ray_t2 s origin direction"
    by (intro t1_le_t2) (simp add: disc_unfold)
next
  fix t
  assume h: "0 \<le> ray_discriminant s origin direction \<and> dot direction direction \<noteq> 0 \<and> radius s \<noteq> 0"
  then show "on_circle s (ray_point origin direction t)
               = (t = ray_t1 s origin direction \<or> t = ray_t2 s origin direction)"
    by (intro on_circle_iff) (simp_all add: disc_unfold)
next
  assume h: "0 \<le> ray_discriminant s origin direction \<and> dot direction direction \<noteq> 0 \<and> radius s \<noteq> 0"
  then have oc: "on_circle s (ray_point origin direction t)
               = (t = ray_t1 s origin direction \<or> t = ray_t2 s origin direction)" for t
    by (intro on_circle_iff) (simp_all add: disc_unfold)
  have h1: "(case normalize (vsub (vadd origin (vscale direction (ray_t1 s origin direction))) (circle_position s)) of
            Inl e \<Rightarrow> Inl e
          | Inr n \<Rightarrow> Inr (Some \<lparr>point = vadd origin (vscale direction (ray_t1 s origin direction)), normal = n,
                               distance = ray_t1 s origin direction\<rparr>))
         = Inr (Some (hit_at s origin direction (ray_t1 s origin direction)))"
    by (rule hit_value) (use h oc in auto)
  have h2: "(case normalize (vsub (vadd origin (vscale direction (ray_t2 s origin direction))) (circle_position s)) of
            Inl e \<Rightarrow> Inl e
          | Inr n \<Rightarrow> Inr (Some \<lparr>point = vadd origin (vscale direction (ray_t2 s origin direction)), normal = n,
                               distance = ray_t2 s origin direction\<rparr>))
         = Inr (Some (hit_at s origin direction (ray_t2 s origin direction)))"
    by (rule hit_value) (use h oc in auto)
  have nd: "\<not> ray_discriminant s origin direction < 0" using h by simp
  show "circle_intersects_ray s origin direction maxd =
          (if admissible (ray_t1 s origin direction) maxd
             then Inr (Some (hit_at s origin direction (ray_t1 s origin direction)))
           else if admissible (ray_t2 s origin direction) maxd
             then Inr (Some (hit_at s origin direction (ray_t2 s origin direction)))
           else Inr None)"
    using h nd h1 h2
    by (simp add: circle_intersects_ray_def ray_discriminant_def Let_def admissible_def)
qed


theorem circle_ray_hit_witness:
  "0 \<le> ray_discriminant \<lparr>circle_position = Vector2 10 0, radius = 2\<rparr> (Vector2 0 0) (Vector2 1 0)
   \<and> dot (Vector2 1 0) (Vector2 1 0) \<noteq> 0
   \<and> radius \<lparr>circle_position = Vector2 10 0, radius = 2\<rparr> \<noteq> 0
   \<and> ray_t1 \<lparr>circle_position = Vector2 10 0, radius = 2\<rparr> (Vector2 0 0) (Vector2 1 0) = 8
   \<and> ray_t2 \<lparr>circle_position = Vector2 10 0, radius = 2\<rparr> (Vector2 0 0) (Vector2 1 0) = 12
   \<and> circle_intersects_ray \<lparr>circle_position = Vector2 10 0, radius = 2\<rparr> (Vector2 0 0) (Vector2 1 0) Infinity
       = Inr (Some \<lparr>point = Vector2 8 0, normal = Vector2 (-1) 0, distance = 8\<rparr>)
   \<and> circle_intersects_ray \<lparr>circle_position = Vector2 10 0, radius = 2\<rparr> (Vector2 0 0) (Vector2 1 0) (Finite 5)
       = Inr None
   \<and> 0 \<le> ray_discriminant \<lparr>circle_position = Vector2 0 0, radius = 2\<rparr> (Vector2 0 0) (Vector2 1 0)
   \<and> ray_t1 \<lparr>circle_position = Vector2 0 0, radius = 2\<rparr> (Vector2 0 0) (Vector2 1 0) = - 2
   \<and> ray_t2 \<lparr>circle_position = Vector2 0 0, radius = 2\<rparr> (Vector2 0 0) (Vector2 1 0) = 2
   \<and> \<not> admissible (- 2) Infinity
   \<and> admissible 2 Infinity
   \<and> circle_intersects_ray \<lparr>circle_position = Vector2 0 0, radius = 2\<rparr> (Vector2 0 0) (Vector2 1 0) Infinity
       = Inr (Some \<lparr>point = Vector2 2 0, normal = Vector2 1 0, distance = 2\<rparr>)
   \<and> ray_discriminant \<lparr>circle_position = Vector2 10 5, radius = 2\<rparr> (Vector2 0 0) (Vector2 1 0) < 0
   \<and> circle_intersects_ray \<lparr>circle_position = Vector2 10 5, radius = 2\<rparr> (Vector2 0 0) (Vector2 1 0) Infinity
       = Inr None
   \<and> dot (Vector2 0 0) (Vector2 0 0) = 0
   \<and> circle_intersects_ray \<lparr>circle_position = Vector2 10 0, radius = 2\<rparr> (Vector2 0 0) (Vector2 0 0) Infinity
       = Inl ZeroDivisionError"
proof -
  have e1: "ray_discriminant \<lparr>circle_position = Vector2 10 0, radius = 2\<rparr> (Vector2 0 0) (Vector2 1 0) = 16"
    and e2: "ray_discriminant \<lparr>circle_position = Vector2 0 0, radius = 2\<rparr> (Vector2 0 0) (Vector2 1 0) = 16"
    and e3: "ray_discriminant \<lparr>circle_position = Vector2 10 5, radius = 2\<rparr> (Vector2 0 0) (Vector2 1 0) = - 84"
    and e4: "ray_discriminant \<lparr>circle_position = Vector2 10 0, radius = 2\<rparr> (Vector2 0 0) (Vector2 0 0) = 0"
    by (simp_all add: ray_discriminant_def Let_def dot_def vsub_def)
  have t: "ray_t1 \<lparr>circle_position = Vector2 10 0, radius = 2\<rparr> (Vector2 0 0) (Vector2 1 0) = 8"
      "ray_t2 \<lparr>circle_position = Vector2 10 0, radius = 2\<rparr> (Vector2 0 0) (Vector2 1 0) = 12"
      "ray_t1 \<lparr>circle_position = Vector2 0 0, radius = 2\<rparr> (Vector2 0 0) (Vector2 1 0) = - 2"
      "ray_t2 \<lparr>circle_position = Vector2 0 0, radius = 2\<rparr> (Vector2 0 0) (Vector2 1 0) = 2"
    by (simp_all add: ray_t1_def ray_t2_def Let_def dot_def vsub_def sqrt16)
  from circle_ray_hit [of "\<lparr>circle_position = Vector2 10 0, radius = 2\<rparr>" "Vector2 0 0" "Vector2 1 0" "Finite 5"]
       circle_ray_hit [of "\<lparr>circle_position = Vector2 0 0, radius = 2\<rparr>" "Vector2 0 0" "Vector2 1 0" Infinity]
       circle_ray_hit [of "\<lparr>circle_position = Vector2 10 5, radius = 2\<rparr>" "Vector2 0 0" "Vector2 1 0" Infinity]
       circle_ray_hit [of "\<lparr>circle_position = Vector2 10 0, radius = 2\<rparr>" "Vector2 0 0" "Vector2 0 0" Infinity]
  show ?thesis
    by (simp add: e1 e2 e3 e4 t admissible_def hit_at_def ray_point_def vadd_def vscale_def vsub_def
        dot_def)
qed

section \<open>Properties of polygon construction\<close>

lemma foldl_vadd_vx: "vx (foldl vadd a vs) = vx a + sum_list (map vx vs)"
  by (induction vs arbitrary: a) (simp_all add: vadd_def)

lemma foldl_vadd_vy: "vy (foldl vadd a vs) = vy a + sum_list (map vy vs)"
  by (induction vs arbitrary: a) (simp_all add: vadd_def)

text \<open>
  Claim C8, as the code has it.  The constructor fails exactly on the empty vertex list,
  with the \<open>ZeroDivisionError\<close> of the centroid; every other list, also one of one or
  two vertices, yields a polygon holding those vertices, positioned at their mean.
\<close>

theorem polygon_init_rejects_only_empty:
  "(\<exists>e. PolygonShape_init vs = Inl e) = (vs = [])
   \<and> (case PolygonShape_init vs of
         Inl e \<Rightarrow> e = ZeroDivisionError
       | Inr p \<Rightarrow> vertices p = vs
           \<and> polygon_position p = Vector2 (sum_list (map vx vs) / real (length vs))
                                           (sum_list (map vy vs) / real (length vs)))"
proof (cases "vs = []")
  case True
  then show ?thesis by (simp add: PolygonShape_init_def)
next
  case False
  then show ?thesis by (simp add: PolygonShape_init_def foldl_vadd_vx foldl_vadd_vy)
qed

text \<open>The claim as stated fails: two vertices are accepted.\<close>

theorem polygon_init_counterexample:
  "length [Vector2 0 0, Vector2 1 1] < 3 \<and>
   PolygonShape_init [Vector2 0 0, Vector2 1 1]
     = Inr \<lparr>polygon_position = Vector2 (1/2) (1/2), vertices = [Vector2 0 0, Vector2 1 1]\<rparr>"
  by (simp add: PolygonShape_init_def vadd_def)

section \<open>Properties of the engine on the world of two circles\<close>

lemma raycast_loop_no_limit:
  "raycast_loop isr hp origin direction maxd (-1) ign objs hits = Inr hits"
  by (cases objs) simp_all

lemma raycast_default_empty:
  "raycast_default isr cast hp tree origin direction = Inr []"
  by (simp add: raycast_default_def raycast_def raycast_loop_no_limit)


lemma default_registry_entity [simp]: "default_registry (GameObject_subclass c, tb) = None"
  by (simp add: default_registry_def CollisionDetector_init_def default_detectors_def
      CollisionDetector_add_def)

lemma detect_unregistered:
  "reg (type_of a, type_of b) = None \<Longrightarrow> detect reg type_of call a b = Inl NotImplementedError"
  by (simp add: detect_def)

lemma world2_game_objs: "game_objs world2 = [(0, 10), (1, 11)]"
  by (simp add: world2_def world0_def add_game_object_def next_id_def Engine_init_def Let_def)

lemma world2_heap: "heap world2 = (\<lambda>_. DummyGameObject (Vector2 0 0) 0 0)
                 (10 := DummyGameObject (Vector2 10 10) 2 1,
                  11 := (DummyGameObject (Vector2 11 10) 2 1)\<lparr>obj_id := 1\<rparr>)"
  by (simp add: world2_def world0_def add_game_object_def next_id_def Engine_init_def Let_def DummyGameObject_def fun_eq_iff)

lemma world2_tree: "spatial_tree (instances world2 0) = SpatialQuadTree_init (Rect 0 0 128 128) 10 5 0"
  by (simp add: world2_def world0_def add_game_object_def next_id_def Engine_init_def Let_def)


lemma bbox0: "bbox_of circle_get_bounding_rect (heap world2) 10 = Some (Rect 8 8 4 4)"
  by (simp add: world2_heap bbox_of_def DummyGameObject_def circle_get_bounding_rect_def trunc_def)

lemma bbox1: "bbox_of circle_get_bounding_rect (heap world2) 11 = Some (Rect 9 8 4 4)"
  by (simp add: world2_heap bbox_of_def DummyGameObject_def circle_get_bounding_rect_def trunc_def)

lemma tick_phase1:
  "update_entities dummy_update 0 dt (map snd (game_objs world2)) world2 [] = (world2, [10, 11])"
  by (simp add: world2_game_objs dummy_update_def)

lemma world2_inst: "instances world2 0 = \<lparr>next_obj_id = Some 2,
     spatial_tree = SpatialQuadTree_init (Rect 0 0 128 128) 10 5 0\<rparr>"
  by (simp add: world2_def world0_def add_game_object_def next_id_def Engine_init_def Let_def)

lemma upd0:
  "update_object (bbox_of circle_get_bounding_rect (heap world2)) 10
     (SpatialQuadTree_init (Rect 0 0 128 128) 10 5 0)
   = SpatialQuadTree (Rect 0 0 128 128) 10 5 0 [10] [] 0 0"
  by (simp add: update_object_def remove_obj_def bbox0 SpatialQuadTree_init_def insert_obj.simps
      colliderect_def set_discard_def set_add_def set_objects_def)

lemma upd1:
  "update_object (bbox_of circle_get_bounding_rect (heap world2)) 11
     (SpatialQuadTree (Rect 0 0 128 128) 10 5 0 [10] [] 0 0)
   = SpatialQuadTree (Rect 0 0 128 128) 10 5 0 [10, 11] [] 0 0"
  by (simp add: update_object_def remove_obj_def bbox1 insert_obj.simps
      colliderect_def set_discard_def set_add_def set_objects_def)

lemma tick_phase2:
  "reposition circle_get_bounding_rect 0 [10, 11] world2 = world2_moved"
  by (simp add: world2_inst upd0 upd1 world2_moved_def)

lemma tick_phase3:
  "detect_collisions default_registry call circle_get_bounding_rect 0 world2_moved [10, 11] []
     = Inl NotImplementedError"
  by (simp add: world2_moved_def world2_heap DummyGameObject_def circle_get_bounding_rect_def
      trunc_def retrieve.simps colliderect_def detect_def)

text \<open>
  Claim C1.  \<open>detect\<close> raises \<open>NotImplementedError\<close> for a pair with no handler, and
  \<open>Engine.update\<close> does not catch it: on the world of two overlapping circles, where
  both entities moved, the tick ends with that error instead of a world.  (The registry
  is asked for the classes of the two entities, which are never registered.)
\<close>

theorem engine_update_aborts_on_unregistered_pair:
  "detect default_registry (\<lambda>obj. obj_class (heap world2 obj)) call 10 11 = Inl NotImplementedError
   \<and> Engine_update dummy_update dummy_on_collision default_registry call circle_get_bounding_rect
        world2 0 dt = Inl NotImplementedError"
proof (intro conjI)
  show "detect default_registry (\<lambda>obj. obj_class (heap world2 obj)) call 10 11
          = Inl NotImplementedError"
    by (rule detect_unregistered) (simp add: world2_heap DummyGameObject_def)
  show "Engine_update dummy_update dummy_on_collision default_registry call circle_get_bounding_rect
        world2 0 dt = Inl NotImplementedError"
    by (simp only: Engine_update_def tick_phase1 Let_def prod.case tick_phase2 tick_phase3 sum.case)
qed

lemma tree_after_tick:
  "spatial_tree (instances (reposition circle_get_bounding_rect 0 [10, 11] world2) 0)
     = SpatialQuadTree (Rect 0 0 128 128) 10 5 0 [10, 11] [] 0 0"
  by (simp only: tick_phase2) (simp add: world2_moved_def)

lemma heap_after_tick:
  "heap (reposition circle_get_bounding_rect 0 [10, 11] world2) = heap world2"
  by (simp only: tick_phase2) (simp add: world2_moved_def)

lemma ray_scene_tree_value:
  "ray_scene_tree = SpatialQuadTree (Rect (-64) (-64) 128 128) 10 5 0 [10] [] 0 0"
  by (simp add: ray_scene_tree_def ray_scene_heap_def bbox_of_def DummyGameObject_def
      circle_get_bounding_rect_def trunc_def insert_obj.simps SpatialQuadTree_init_def
      colliderect_def set_objects_def set_add_def)

lemma ray_scene_circle_hit:
  "circle_intersects_ray \<lparr>circle_position = Vector2 6 8, radius = 2\<rparr> (Vector2 0 0)
     (Vector2 (3/5) (4/5)) maxd
   = (if le_max 8 maxd then Inr (Some ray_scene_hit)
      else if le_max 12 maxd then
        Inr (Some \<lparr>point = Vector2 (36/5) (48/5), normal = Vector2 (3/5) (4/5), distance = 12\<rparr>)
      else Inr None)"
  by (simp add: circle_intersects_ray_def ray_t1_def ray_t2_def vsub_def vadd_def vscale_def dot_def
      Let_def normalize_def vlength_def sqrt16 ray_scene_hit_def)

lemma ray_scene_bounds_inf:
  "ray_bounds cast (Vector2 0 0) (Vector2 (3/5) (4/5)) Infinity = Rect 0 0 (cast PosInf) (cast PosInf)"
  by (simp add: ray_bounds_def create_ray_bounds_def trunc_def)

lemma ray_scene_bounds_50:
  "ray_bounds cast (Vector2 0 0) (Vector2 (3/5) (4/5)) (Finite 50) = Rect 0 0 30 40"
  by (simp add: ray_bounds_def create_ray_bounds_def trunc_def)

lemma ray_scene_candidates_inf:
  "retrieve (ray_bounds cast (Vector2 0 0) (Vector2 (3/5) (4/5)) Infinity) ray_scene_tree
     = (if cast PosInf = 0 then [] else [10])"
  by (auto simp add: ray_scene_bounds_inf ray_scene_tree_value retrieve.simps colliderect_def)

lemma ray_scene_candidates_50:
  "retrieve (ray_bounds cast (Vector2 0 0) (Vector2 (3/5) (4/5)) (Finite 50)) ray_scene_tree = [10]"
  by (simp add: ray_scene_bounds_50 ray_scene_tree_value retrieve.simps colliderect_def)

text \<open>
  Claim C3.  With the default \<open>hits_lim = -1\<close> the test \<open>len(hits) >= hits_lim\<close> holds
  before the first candidate is looked at, so \<open>raycast\<close> returns the empty list for
  every query.  In the scene for a ray the circle is a broad-phase candidate of the
  default query (unless the cast of \<open>inf\<close> to \<open>int\<close> gives \<open>0\<close>, which empties the
  query box) and is hit at distance \<open>8\<close>; with a supplied cap of \<open>1\<close> that hit is
  returned, with the default arguments nothing is.  The same holds with a maximum
  distance of \<open>50\<close>, where no infinity is involved.
\<close>

theorem raycast_default_returns_no_hits:
  "raycast_default isr cast0 hp tree origin direction = Inr []
   \<and> retrieve (ray_bounds cast (Vector2 0 0) (Vector2 (3/5) (4/5)) Infinity) ray_scene_tree
       = (if cast PosInf = 0 then [] else [10])
   \<and> shape (ray_scene_heap 10) = Some \<lparr>circle_position = Vector2 6 8, radius = 2\<rparr>
   \<and> collidable (ray_scene_heap 10)
   \<and> circle_intersects_ray \<lparr>circle_position = Vector2 6 8, radius = 2\<rparr> (Vector2 0 0)
        (Vector2 (3/5) (4/5)) Infinity = Inr (Some ray_scene_hit)
   \<and> raycast circle_intersects_ray cast ray_scene_heap ray_scene_tree (Vector2 0 0)
        (Vector2 (3/5) (4/5)) Infinity 1 {}
       = Inr (if cast PosInf = 0 then [] else [(10, ray_scene_hit)])
   \<and> raycast_default circle_intersects_ray cast ray_scene_heap ray_scene_tree (Vector2 0 0)
        (Vector2 (3/5) (4/5)) = Inr []
   \<and> retrieve (ray_bounds cast (Vector2 0 0) (Vector2 (3/5) (4/5)) (Finite 50)) ray_scene_tree = [10]
   \<and> raycast circle_intersects_ray cast ray_scene_heap ray_scene_tree (Vector2 0 0)
        (Vector2 (3/5) (4/5)) (Finite 50) 1 {} = Inr [(10, ray_scene_hit)]
   \<and> raycast circle_intersects_ray cast ray_scene_heap ray_scene_tree (Vector2 0 0)
        (Vector2 (3/5) (4/5)) (Finite 50) (-1) {} = Inr []"
proof (intro conjI)
  show "raycast_default isr cast0 hp tree origin direction = Inr []"
    by (rule raycast_default_empty)
  show "retrieve (ray_bounds cast (Vector2 0 0) (Vector2 (3/5) (4/5)) Infinity) ray_scene_tree
       = (if cast PosInf = 0 then [] else [10])"
    by (rule ray_scene_candidates_inf)
  show "shape (ray_scene_heap 10) = Some \<lparr>circle_position = Vector2 6 8, radius = 2\<rparr>"
    by (simp add: ray_scene_heap_def DummyGameObject_def)
  show "collidable (ray_scene_heap 10)"
    by (simp add: ray_scene_heap_def DummyGameObject_def)
  show "circle_intersects_ray \<lparr>circle_position = Vector2 6 8, radius = 2\<rparr> (Vector2 0 0)
        (Vector2 (3/5) (4/5)) Infinity = Inr (Some ray_scene_hit)"
    by (simp add: ray_scene_circle_hit)
  show "raycast circle_intersects_ray cast ray_scene_heap ray_scene_tree (Vector2 0 0)
        (Vector2 (3/5) (4/5)) Infinity 1 {}
       = Inr (if cast PosInf = 0 then [] else [(10, ray_scene_hit)])"
    by (simp add: raycast_def ray_scene_candidates_inf ray_scene_heap_def DummyGameObject_def
        ray_scene_circle_hit)
  show "raycast_default circle_intersects_ray cast ray_scene_heap ray_scene_tree (Vector2 0 0)
        (Vector2 (3/5) (4/5)) = Inr []"
    by (rule raycast_default_empty)
  show "retrieve (ray_bounds cast (Vector2 0 0) (Vector2 (3/5) (4/5)) (Finite 50)) ray_scene_tree = [10]"
    by (rule ray_scene_candidates_50)
  show "raycast circle_intersects_ray cast ray_scene_heap ray_scene_tree (Vector2 0 0)
        (Vector2 (3/5) (4/5)) (Finite 50) 1 {} = Inr [(10, ray_scene_hit)]"
    by (simp add: raycast_def ray_scene_candidates_50 ray_scene_heap_def DummyGameObject_def
        ray_scene_circle_hit)
  show "raycast circle_intersects_ray cast ray_scene_heap ray_scene_tree (Vector2 0 0)
        (Vector2 (3/5) (4/5)) (Finite 50) (-1) {} = Inr []"
    by (simp add: raycast_def raycast_loop_no_limit)
qed

text \<open>
  For comparison, a ray along an axis: the NaN coordinate of its end point gives the
  query box a zero height, which collides with nothing, so the default query has no
  broad-phase candidate at all.
\<close>

lemma axis_ray_has_no_candidates:
  "ray_bounds cast (Vector2 0 10) (Vector2 1 0) Infinity = Rect 0 10 (cast PosInf) 0
   \<and> retrieve (ray_bounds cast (Vector2 0 10) (Vector2 1 0) Infinity) tree = []"
proof -
  have b: "ray_bounds cast (Vector2 0 10) (Vector2 1 0) Infinity = Rect 0 10 (cast PosInf) 0"
    by (simp add: ray_bounds_def create_ray_bounds_def trunc_def)
  show ?thesis unfolding b by (subst retrieve.simps) (simp add: colliderect_def)
qed

lemma remove_keeps_instances: "instances (remove_game_object w self oid) = instances w"
  by (simp add: remove_game_object_def Let_def split: option.splits)

lemma world2_by_type: "game_objs_by_type world2 = [(1, [(0, 10), (1, 11)])]"
  by (simp add: world2_def world0_def add_game_object_def next_id_def Engine_init_def Let_def
      DummyGameObject_def)

text \<open>
  Claim C4.  \<open>Engine.remove_game_object\<close> deletes the entity from the two dictionaries
  and leaves the spatial index as it is: after the first circle is unregistered the
  lookup by its identity finds nothing, and the query over its bounding box still
  returns it.
\<close>

theorem remove_game_object_keeps_spatial_entry:
  "spatial_tree (instances (remove_game_object w self oid) self) = spatial_tree (instances w self)
   \<and> get_game_object_by_id (reposition circle_get_bounding_rect 0 [10, 11] world2) 0 0 = Some 10
   \<and> get_game_object_by_id
        (remove_game_object (reposition circle_get_bounding_rect 0 [10, 11] world2) 0 0) 0 0 = None
   \<and> get_objects_in_rect
        (remove_game_object (reposition circle_get_bounding_rect 0 [10, 11] world2) 0 0) 0
        (Rect 8 8 4 4) = [10, 11]"
proof (intro conjI)
  show "spatial_tree (instances (remove_game_object w self oid) self) = spatial_tree (instances w self)"
    by (simp add: remove_keeps_instances)
  show "get_game_object_by_id (reposition circle_get_bounding_rect 0 [10, 11] world2) 0 0 = Some 10"
    by (simp only: tick_phase2) (simp add: get_game_object_by_id_def world2_moved_def world2_game_objs)
  show "get_game_object_by_id
        (remove_game_object (reposition circle_get_bounding_rect 0 [10, 11] world2) 0 0) 0 0 = None"
    by (simp only: tick_phase2)
      (simp add: get_game_object_by_id_def remove_game_object_def world2_moved_def
        world2_game_objs world2_by_type world2_heap DummyGameObject_def Let_def)
  show "get_objects_in_rect
        (remove_game_object (reposition circle_get_bounding_rect 0 [10, 11] world2) 0 0) 0
        (Rect 8 8 4 4) = [10, 11]"
    by (simp only: get_objects_in_rect_def remove_keeps_instances tree_after_tick)
      (simp add: retrieve.simps colliderect_def)
qed

text \<open>
  Claim C9.  The registry dictionaries belong to the class: with two engine instances,
  after engine \<open>0\<close> has registered entity \<open>10\<close> under identity \<open>0\<close>, a registration
  through engine \<open>1\<close> (whose own counter also starts at \<open>0\<close>) replaces what engine \<open>0\<close>
  finds under identity \<open>0\<close> and under type \<open>1\<close>.
\<close>

theorem registry_shared_between_engines:
  "get_game_object_by_id (snd (add_game_object two_engines 0 10)) 0 0 = Some 10
   \<and> get_game_objects_by_type (snd (add_game_object two_engines 0 10)) 0 1 = Some [(0, 10)]
   \<and> get_game_object_by_id
        (snd (add_game_object (snd (add_game_object two_engines 0 10)) 1 11)) 0 0 = Some 11
   \<and> get_game_objects_by_type
        (snd (add_game_object (snd (add_game_object two_engines 0 10)) 1 11)) 0 1 = Some [(0, 11)]"
  by (simp add: two_engines_def world0_def add_game_object_def next_id_def Engine_init_def Let_def
      DummyGameObject_def get_game_object_by_id_def get_game_objects_by_type_def)


section \<open>Properties of the spatial index\<close>

lemma set_set_add [simp]: "set (set_add obj os) = insert obj (set os)"
  by (auto simp add: set_add_def)

lemma set_set_discard [simp]: "set (set_discard obj os) = set os - {obj}"
  by (auto simp add: set_discard_def)

lemma set_set_union [simp]: "set (set_union found xs) = set found \<union> set xs"
proof -
  have "set (fold set_add xs found) = set found \<union> set xs"
    by (induction xs arbitrary: found) auto
  then show ?thesis by (simp add: set_union_def)
qed

lemma on_path_retrieve: "on_path r obj t \<Longrightarrow> obj \<in> set (retrieve r t)"
proof (induction rule: on_path.induct)
  case (here t r obj)
  have "set (objects t) \<subseteq> set (fold (\<lambda>node found. set_union found (retrieve r node)) ns (objects t))" for ns
  proof (induction ns rule: rev_induct)
    case Nil
    then show ?case by simp
  next
    case (snoc x xs)
    then show ?case by auto
  qed
  with here show ?case
    by (subst retrieve.simps) auto
next
  case (below t r obj)
  then show ?case by (subst retrieve.simps) auto
qed

lemma overlaps_collide:
  "overlaps r b \<Longrightarrow> colliderect b r"
  by (simp add: overlaps_def)


lemma sel_set_objects [simp]:
  "bounds (set_objects t os) = bounds t"
  "max_objects (set_objects t os) = max_objects t"
  "objects (set_objects t os) = os"
  "vertical_mid (set_objects t os) = vertical_mid t"
  "horizontal_mid (set_objects t os) = horizontal_mid t"
  by (simp_all add: set_objects_def)

lemma sel_set_node [simp]:
  "bounds (set_node t i c) = bounds t"
  "max_objects (set_node t i c) = max_objects t"
  "max_levels (set_node t i c) = max_levels t"
  "level (set_node t i c) = level t"
  "objects (set_node t i c) = objects t"
  "nodes (set_node t i c) = (nodes t)[i := c]"
  "vertical_mid (set_node t i c) = vertical_mid t"
  "horizontal_mid (set_node t i c) = horizontal_mid t"
  by (simp_all add: set_node_def)

lemma sel_split [simp]:
  "bounds (split t) = bounds t"
  "max_objects (split t) = max_objects t"
  "max_levels (split t) = max_levels t"
  "level (split t) = level t"
  "objects (split t) = objects t"
  by (simp_all add: split_def Let_def)

lemma get_index_set_objects [simp]: "get_index (set_objects t os) r = get_index t r"
  by (simp add: get_index_def)

lemma get_index_set_node [simp]: "get_index (set_node t i c) r = get_index t r"
  by (simp add: get_index_def)

lemma same_frame_refl [simp]: "same_frame t t"
  by (simp add: same_frame_def)

lemma same_frame_trans: "same_frame a b \<Longrightarrow> same_frame b c \<Longrightarrow> same_frame a c"
  by (simp add: same_frame_def)

lemma same_frame_simps [simp]:
  "same_frame t (set_objects t' os) = same_frame t t'"
  "same_frame t (set_node t' i c) = same_frame t t'"
  "same_frame t (split t') = same_frame t t'"
  by (simp_all add: same_frame_def)

lemma same_frame_insert:
  "same_frame t (insert_obj bbox obj t)"
  "same_frame t (redistribute bbox objs t)"
proof (induction bbox obj t and bbox objs t rule: insert_obj_redistribute.induct)
  case (1 bbox obj t)
  show ?case
  proof (cases "bbox obj")
    case None
    then show ?thesis by (simp add: insert_obj.simps)
  next
    case (Some r)
    show ?thesis
    proof (cases "colliderect (bounds t) r")
      case False
      then show ?thesis using Some by (simp add: insert_obj.simps)
    next
      case True
      show ?thesis
      proof (cases "nodes t \<noteq> [] \<and> get_index t r \<noteq> -1 \<and> nat (get_index t r) < length (nodes t)")
        case c: True
        then show ?thesis using Some True by (simp add: insert_obj.simps)
      next
        case c: False
        define t1 where "t1 = set_objects t (set_add obj (objects t))"
        show ?thesis
        proof (cases "max_objects t1 < int (length (objects t1)) \<and> level t1 < max_levels t1")
          case s: True
          define t2 where "t2 = (if nodes t1 = [] then split t1 else t1)"
          have f2: "same_frame t t2" by (simp add: t2_def t1_def)
          have "same_frame t2 (redistribute bbox (objects t2) t2)"
            using "1.IH"(2)[OF Some _ c t1_def s t2_def] True by simp
          moreover have "insert_obj bbox obj t = redistribute bbox (objects t2) t2"
            using Some True c s
            by (subst insert_obj.simps) (auto simp add: Let_def t1_def[symmetric] t2_def[symmetric])
          ultimately show ?thesis using f2 same_frame_trans by metis
        next
          case s: False
          have "insert_obj bbox obj t = t1"
            using Some True c s
            by (subst insert_obj.simps) (auto simp add: Let_def t1_def[symmetric])
          then show ?thesis by (simp add: t1_def)
        qed
      qed
    qed
  qed
next
  case (2 bbox t)
  then show ?case by simp
next
  case (3 bbox obj rest t)
  show ?case
  proof (cases "bbox obj")
    case None
    then show ?thesis using "3.IH"(1) by simp
  next
    case (Some r)
    show ?thesis
    proof (cases "get_index t r \<noteq> -1 \<and> nat (get_index t r) < length (nodes t)")
      case c: True
      define t' where "t' = set_objects (set_node t (nat (get_index t r))
          (insert_obj bbox obj (nodes t ! nat (get_index t r)))) (set_discard obj (objects t))"
      have "same_frame t t'" by (simp add: t'_def)
      moreover have "same_frame t' (redistribute bbox rest t')"
        using "3.IH"(3)[OF Some c] by (simp add: t'_def)
      moreover have "redistribute bbox (obj # rest) t = redistribute bbox rest t'"
        using Some c by (simp add: t'_def)
      ultimately show ?thesis using same_frame_trans by metis
    next
      case c: False
      then show ?thesis using "3.IH"(4)[OF Some c] Some by auto
    qed
  qed
qed


lemma exact_quadrants_sel:
  "exact_quadrants t =
     (0 < rect_width (bounds t) \<and> 0 < rect_height (bounds t) \<and>
      2 ^ nat (max_levels t - level t) dvd rect_width (bounds t) \<and>
      2 ^ nat (max_levels t - level t) dvd rect_height (bounds t) \<and>
      (nodes t = [] \<or>
       (level t < max_levels t \<and>
        vertical_mid t = rect_x (bounds t) + rect_width (bounds t) div 2 \<and>
        horizontal_mid t = rect_y (bounds t) + rect_height (bounds t) div 2 \<and>
        map bounds (nodes t) =
          [Rect (vertical_mid t) (rect_y (bounds t)) (rect_width (bounds t) div 2) (rect_height (bounds t) div 2),
           Rect (rect_x (bounds t)) (rect_y (bounds t)) (rect_width (bounds t) div 2) (rect_height (bounds t) div 2),
           Rect (rect_x (bounds t)) (horizontal_mid t) (rect_width (bounds t) div 2) (rect_height (bounds t) div 2),
           Rect (vertical_mid t) (horizontal_mid t) (rect_width (bounds t) div 2) (rect_height (bounds t) div 2)] \<and>
        (\<forall>c \<in> set (nodes t). max_objects c = max_objects t \<and> max_levels c = max_levels t \<and>
                       level c = level t + 1 \<and> exact_quadrants c))))"
  by (cases t) simp

lemma exact_quadrants_set_objects [simp]:
  "exact_quadrants (set_objects t os) = exact_quadrants t"
  by (cases t) (simp add: set_objects_def)

lemma exact_quadrants_child:
  assumes "exact_quadrants t" "i < length (nodes t)"
  shows "exact_quadrants (nodes t ! i)"
proof -
  have "nodes t \<noteq> []" using assms(2) by auto
  with assms(1)[unfolded exact_quadrants_sel[of t]]
  have "\<forall>c \<in> set (nodes t). exact_quadrants c" by blast
  then show ?thesis using assms(2) nth_mem by blast
qed

lemma exact_quadrants_set_node:
  assumes "exact_quadrants t" "i < length (nodes t)" "same_frame (nodes t ! i) c" "exact_quadrants c"
  shows "exact_quadrants (set_node t i c)"
proof -
  have ne: "nodes t \<noteq> []" using assms(2) by auto
  note q = assms(1)[unfolded exact_quadrants_sel[of t]]
  have b: "map bounds ((nodes t)[i := c]) = map bounds (nodes t)"
    using assms(2,3) by (simp add: same_frame_def map_update list_update_same_conv)
  have ch: "\<forall>c' \<in> set ((nodes t)[i := c]). max_objects c' = max_objects t \<and> max_levels c' = max_levels t \<and>
                       level c' = level t + 1 \<and> exact_quadrants c'"
  proof
    fix c' assume "c' \<in> set ((nodes t)[i := c])"
    then have "c' = c \<or> c' \<in> set (nodes t)"
      using set_update_subset_insert[of "nodes t" i c] by auto
    moreover have "nodes t ! i \<in> set (nodes t)" using assms(2) by simp
    ultimately show "max_objects c' = max_objects t \<and> max_levels c' = max_levels t \<and>
                       level c' = level t + 1 \<and> exact_quadrants c'"
      using q ne assms(3,4) by (auto simp add: same_frame_def)
  qed
  show ?thesis
    unfolding exact_quadrants_sel[of "set_node t i c"]
    using q ne b ch by simp
qed

lemma dvd_half:
  fixes w :: int
  assumes "2 ^ nat (ml - lv) dvd w" "lv < ml"
  shows "2 ^ nat (ml - (lv + 1)) dvd w div 2" "2 * (w div 2) = w"
proof -
  have n: "nat (ml - lv) = Suc (nat (ml - (lv + 1)))" using assms(2) by simp
  from assms(1) obtain q where w: "w = 2 ^ nat (ml - lv) * q" by (auto simp add: dvd_def)
  then have w2: "w = 2 * (2 ^ nat (ml - (lv + 1)) * q)" by (simp add: n)
  then have "w div 2 = 2 ^ nat (ml - (lv + 1)) * q" by simp
  then show "2 ^ nat (ml - (lv + 1)) dvd w div 2" by simp
  show "2 * (w div 2) = w" using w2 by simp
qed

lemma exact_quadrants_init:
  "exact_quadrants (SpatialQuadTree_init b mo ml lv) =
     (0 < rect_width b \<and> 0 < rect_height b \<and>
      2 ^ nat (ml - lv) dvd rect_width b \<and> 2 ^ nat (ml - lv) dvd rect_height b)"
  by (simp add: SpatialQuadTree_init_def)

lemma exact_quadrants_split:
  assumes "exact_quadrants t" "nodes t = []" "level t < max_levels t"
  shows "exact_quadrants (split t)"
proof -
  note q = assms(1)[unfolded exact_quadrants_sel[of t]]
  have w: "2 ^ nat (max_levels t - (level t + 1)) dvd rect_width (bounds t) div 2"
      "2 * (rect_width (bounds t) div 2) = rect_width (bounds t)"
    using dvd_half[of "max_levels t" "level t" "rect_width (bounds t)"] q assms(3) by auto
  have h: "2 ^ nat (max_levels t - (level t + 1)) dvd rect_height (bounds t) div 2"
      "2 * (rect_height (bounds t) div 2) = rect_height (bounds t)"
    using dvd_half[of "max_levels t" "level t" "rect_height (bounds t)"] q assms(3) by auto
  have pw: "0 < rect_width (bounds t) div 2" using w(2) q by linarith
  have ph: "0 < rect_height (bounds t) div 2" using h(2) q by linarith
  show ?thesis
    using q w(1) h(1) pw ph assms(3)
    by (cases t) (simp add: split_def Let_def exact_quadrants_init SpatialQuadTree_init_def)
qed

lemma exact_quadrants_insert:
  "exact_quadrants t \<Longrightarrow> exact_quadrants (insert_obj bbox obj t)"
  "exact_quadrants t \<Longrightarrow> exact_quadrants (redistribute bbox objs t)"
proof (induction bbox obj t and bbox objs t rule: insert_obj_redistribute.induct)
  case (1 bbox obj t)
  show ?case
  proof (cases "bbox obj")
    case None
    then show ?thesis using "1.prems" by (simp add: insert_obj.simps)
  next
    case (Some r)
    show ?thesis
    proof (cases "colliderect (bounds t) r")
      case False
      then show ?thesis using Some "1.prems" by (simp add: insert_obj.simps)
    next
      case True
      show ?thesis
      proof (cases "nodes t \<noteq> [] \<and> get_index t r \<noteq> -1 \<and> nat (get_index t r) < length (nodes t)")
        case c: True
        have "exact_quadrants (insert_obj bbox obj (nodes t ! nat (get_index t r)))"
          using "1.IH"(1)[OF Some _ c] True exact_quadrants_child[OF "1.prems"] c by simp
        then have "exact_quadrants (set_node t (nat (get_index t r))
                     (insert_obj bbox obj (nodes t ! nat (get_index t r))))"
          using c "1.prems" by (intro exact_quadrants_set_node) (auto simp add: same_frame_insert)
        then show ?thesis using Some True c by (simp add: insert_obj.simps)
      next
        case c: False
        define t1 where "t1 = set_objects t (set_add obj (objects t))"
        show ?thesis
        proof (cases "max_objects t1 < int (length (objects t1)) \<and> level t1 < max_levels t1")
          case s: True
          define t2 where "t2 = (if nodes t1 = [] then split t1 else t1)"
          have q2: "exact_quadrants t2"
            using "1.prems" s by (auto simp add: t2_def t1_def exact_quadrants_split)
          have "exact_quadrants (redistribute bbox (objects t2) t2)"
            using "1.IH"(2)[OF Some _ c t1_def s t2_def] True q2 by simp
          moreover have "insert_obj bbox obj t = redistribute bbox (objects t2) t2"
            using Some True c s
            by (subst insert_obj.simps) (auto simp add: Let_def t1_def[symmetric] t2_def[symmetric])
          ultimately show ?thesis by simp
        next
          case s: False
          have "insert_obj bbox obj t = t1"
            using Some True c s
            by (subst insert_obj.simps) (auto simp add: Let_def t1_def[symmetric])
          then show ?thesis using "1.prems" by (simp add: t1_def)
        qed
      qed
    qed
  qed
next
  case (2 bbox t)
  then show ?case by simp
next
  case (3 bbox obj rest t)
  show ?case
  proof (cases "bbox obj")
    case None
    then show ?thesis using "3.IH"(1) "3.prems" by simp
  next
    case (Some r)
    show ?thesis
    proof (cases "get_index t r \<noteq> -1 \<and> nat (get_index t r) < length (nodes t)")
      case c: True
      define t' where "t' = set_objects (set_node t (nat (get_index t r))
          (insert_obj bbox obj (nodes t ! nat (get_index t r)))) (set_discard obj (objects t))"
      have "exact_quadrants (insert_obj bbox obj (nodes t ! nat (get_index t r)))"
        using "3.IH"(2)[OF Some c] exact_quadrants_child[OF "3.prems"] c by simp
      then have "exact_quadrants t'"
        unfolding t'_def exact_quadrants_set_objects
        using c "3.prems" by (intro exact_quadrants_set_node) (auto simp add: same_frame_insert)
      then have "exact_quadrants (redistribute bbox rest t')"
        using "3.IH"(3)[OF Some c] by (simp add: t'_def)
      moreover have "redistribute bbox (obj # rest) t = redistribute bbox rest t'"
        using Some c by (simp add: t'_def)
      ultimately show ?thesis by simp
    next
      case c: False
      then show ?thesis using "3.IH"(4)[OF Some c] Some "3.prems" by auto
    qed
  qed
qed


lemma colliderect_pos:
  assumes "0 < rect_width a" "0 < rect_height a" "0 < rect_width b" "0 < rect_height b"
  shows "colliderect a b =
           (rect_x a < rect_x b + rect_width b \<and> rect_y a < rect_y b + rect_height b \<and>
            rect_x b < rect_x a + rect_width a \<and> rect_y b < rect_y a + rect_height a)"
  using assms by (auto simp add: colliderect_def)

lemma overlaps_pos:
  assumes "0 < rect_width b" "0 < rect_height b"
  shows "overlaps r b =
           (0 < rect_width r \<and> 0 < rect_height r \<and>
            rect_x b < rect_x r + rect_width r \<and> rect_y b < rect_y r + rect_height r \<and>
            rect_x r < rect_x b + rect_width b \<and> rect_y r < rect_y b + rect_height b)"
  using assms colliderect_pos[of b r] by (auto simp add: overlaps_def)

lemma quadrant_contains:
  assumes q: "exact_quadrants t" and ne: "nodes t \<noteq> []" and c: "overlaps r (bounds t)"
      and i: "get_index t r \<noteq> -1"
  shows "nat (get_index t r) < length (nodes t)"
    and "overlaps r (bounds (nodes t ! nat (get_index t r)))"
proof -
  note e = q[unfolded exact_quadrants_sel[of t]]
  from e ne have lt: "level t < max_levels t" by blast
  from e ne have vm: "vertical_mid t = rect_x (bounds t) + rect_width (bounds t) div 2"
    and hm: "horizontal_mid t = rect_y (bounds t) + rect_height (bounds t) div 2" by blast+
  from e ne have mb: "map bounds (nodes t) =
          [Rect (vertical_mid t) (rect_y (bounds t)) (rect_width (bounds t) div 2) (rect_height (bounds t) div 2),
           Rect (rect_x (bounds t)) (rect_y (bounds t)) (rect_width (bounds t) div 2) (rect_height (bounds t) div 2),
           Rect (rect_x (bounds t)) (horizontal_mid t) (rect_width (bounds t) div 2) (rect_height (bounds t) div 2),
           Rect (vertical_mid t) (horizontal_mid t) (rect_width (bounds t) div 2) (rect_height (bounds t) div 2)]"
    by blast
  have len: "length (nodes t) = 4"
    using arg_cong[OF mb, of length] by simp
  have w: "2 * (rect_width (bounds t) div 2) = rect_width (bounds t)"
    using dvd_half(2)[of "max_levels t" "level t" "rect_width (bounds t)"] e lt by blast
  have h: "2 * (rect_height (bounds t) div 2) = rect_height (bounds t)"
    using dvd_half(2)[of "max_levels t" "level t" "rect_height (bounds t)"] e lt by blast
  have pos: "0 < rect_width (bounds t)" "0 < rect_height (bounds t)" using e by blast+
  have sw: "0 < rect_width (bounds t) div 2" using w pos by linarith
  have sh: "0 < rect_height (bounds t) div 2" using h pos by linarith
  note c' = c[unfolded overlaps_pos[OF pos]]
  have nth: "k < 4 \<Longrightarrow> bounds (nodes t ! k) = map bounds (nodes t) ! k" for k
    using len by simp
  have b0: "bounds (nodes t ! 0) = Rect (vertical_mid t) (rect_y (bounds t)) (rect_width (bounds t) div 2) (rect_height (bounds t) div 2)"
    using nth[of 0] by (simp add: mb)
  have b1: "bounds (nodes t ! Suc 0) = Rect (rect_x (bounds t)) (rect_y (bounds t)) (rect_width (bounds t) div 2) (rect_height (bounds t) div 2)"
    using nth[of 1] by (simp add: mb)
  have b2: "bounds (nodes t ! 2) = Rect (rect_x (bounds t)) (horizontal_mid t) (rect_width (bounds t) div 2) (rect_height (bounds t) div 2)"
    using nth[of 2] by (simp add: mb)
  have b3: "bounds (nodes t ! 3) = Rect (vertical_mid t) (horizontal_mid t) (rect_width (bounds t) div 2) (rect_height (bounds t) div 2)"
    using nth[of 3] by (simp add: mb)
  have range: "get_index t r = 0 \<or> get_index t r = 1 \<or> get_index t r = 2 \<or> get_index t r = 3"
    using i by (auto simp add: get_index_def Let_def split: if_splits)
  then show "nat (get_index t r) < length (nodes t)" using len by auto
  from range show "overlaps r (bounds (nodes t ! nat (get_index t r)))"
  proof (elim disjE)
    assume g: "get_index t r = 0"
    then have "rect_left r \<ge> vertical_mid t \<and> rect_bottom r \<le> horizontal_mid t"
      by (auto simp add: get_index_def Let_def split: if_splits)
    then show ?thesis using c' w h vm hm
      by (simp add: g b0 overlaps_pos sw sh rect_left_def rect_bottom_def)
  next
    assume g: "get_index t r = 1"
    then have "rect_right r \<le> vertical_mid t \<and> rect_bottom r \<le> horizontal_mid t"
      by (auto simp add: get_index_def Let_def split: if_splits)
    then show ?thesis using c' w h vm hm
      by (simp add: g b1 overlaps_pos sw sh rect_right_def rect_bottom_def)
  next
    assume g: "get_index t r = 2"
    then have "rect_right r \<le> vertical_mid t \<and> rect_top r \<ge> horizontal_mid t"
      by (auto simp add: get_index_def Let_def split: if_splits)
    then show ?thesis using c' w h vm hm
      by (simp add: g b2 overlaps_pos sw sh rect_right_def rect_top_def)
  next
    assume g: "get_index t r = 3"
    then have "rect_left r \<ge> vertical_mid t \<and> rect_top r \<ge> horizontal_mid t"
      by (auto simp add: get_index_def Let_def split: if_splits)
    then show ?thesis using c' w h vm hm
      by (simp add: g b3 overlaps_pos sw sh rect_left_def rect_top_def)
  qed
qed


lemma on_path_iff:
  "on_path r x t =
     (colliderect (bounds t) r \<and>
      (x \<in> set (objects t) \<or>
       (nodes t \<noteq> [] \<and> get_index t r \<noteq> -1 \<and> nat (get_index t r) < length (nodes t) \<and>
        on_path r x (nodes t ! nat (get_index t r)))))"
  by (auto intro: on_path.intros elim: on_path.cases)

lemma on_path_set_node:
  assumes p: "on_path r x t" and i: "i < length (nodes t)"
      and c: "nat (get_index t r) = i \<Longrightarrow> get_index t r \<noteq> -1 \<Longrightarrow>
                on_path r x (nodes t ! i) \<Longrightarrow> on_path r x c'"
  shows "on_path r x (set_node t i c')"
proof -
  from p[unfolded on_path_iff[of r x t]] have col: "colliderect (bounds t) r" by blast
  from p[unfolded on_path_iff[of r x t]] consider
      (here) "x \<in> set (objects t)"
    | (below) "nodes t \<noteq> []" "get_index t r \<noteq> -1" "nat (get_index t r) < length (nodes t)"
        "on_path r x (nodes t ! nat (get_index t r))"
    by blast
  then show ?thesis
  proof cases
    case here
    then show ?thesis using col by (subst on_path_iff) simp
  next
    case below
    show ?thesis
    proof (cases "nat (get_index t r) = i")
      case True
      then have "on_path r x c'" using c below by simp
      then show ?thesis using col below True i by (subst on_path_iff) simp
    next
      case False
      then show ?thesis using col below i by (subst on_path_iff) simp
    qed
  qed
qed

lemma on_path_set_objects:
  assumes "on_path r x t" "x \<in> set (objects t) \<Longrightarrow> x \<in> set os"
  shows "on_path r x (set_objects t os)"
  using assms by (subst on_path_iff, subst (asm) on_path_iff) auto

lemma on_path_split:
  assumes "on_path r x t" "nodes t = []"
  shows "on_path r x (split t)"
  using assms by (subst on_path_iff, subst (asm) on_path_iff) auto

lemma on_path_insert:
  "exact_quadrants t \<Longrightarrow> overlaps rx (bounds t) \<Longrightarrow> bbox x = Some rx \<Longrightarrow>
     obj = x \<or> on_path rx x t \<Longrightarrow> on_path rx x (insert_obj bbox obj t)"
  "exact_quadrants t \<Longrightarrow> overlaps rx (bounds t) \<Longrightarrow> bbox x = Some rx \<Longrightarrow>
     on_path rx x t \<Longrightarrow> on_path rx x (redistribute bbox objs t)"
proof (induction bbox obj t and bbox objs t rule: insert_obj_redistribute.induct)
  case (1 bbox obj t)
  note q = "1.prems"(1) and cx = "1.prems"(2) and bx = "1.prems"(3) and px = "1.prems"(4)
  have colx: "colliderect (bounds t) rx" using cx by (rule overlaps_collide)
  show ?case
  proof (cases "bbox obj")
    case None
    then show ?thesis using px bx by (auto simp add: insert_obj.simps)
  next
    case (Some r)
    have rx: "obj = x \<Longrightarrow> r = rx" using Some bx by simp
    show ?thesis
    proof (cases "colliderect (bounds t) r")
      case False
      then show ?thesis using Some px rx colx by (auto simp add: insert_obj.simps)
    next
      case True
      show ?thesis
      proof (cases "nodes t \<noteq> [] \<and> get_index t r \<noteq> -1 \<and> nat (get_index t r) < length (nodes t)")
        case c: True
        define i where "i = nat (get_index t r)"
        define c' where "c' = insert_obj bbox obj (nodes t ! i)"
        have eq: "insert_obj bbox obj t = set_node t i c'"
          using Some True c by (simp add: insert_obj.simps i_def c'_def)
        have qc: "exact_quadrants (nodes t ! i)"
          using exact_quadrants_child[OF q] c by (simp add: i_def)
        have step: "overlaps rx (bounds (nodes t ! i)) \<Longrightarrow> obj = x \<or> on_path rx x (nodes t ! i)
                      \<Longrightarrow> on_path rx x c'"
          using "1.IH"(1)[OF Some _ c] True qc bx by (simp add: i_def c'_def)
        show ?thesis
        proof (cases "obj = x")
          case True
          then have r: "r = rx" by (rule rx)
          have "overlaps rx (bounds (nodes t ! i))"
            using quadrant_contains(2)[OF q _ cx] c by (simp add: i_def r)
          then have "on_path rx x c'" using step True by simp
          then have "on_path rx x (set_node t i c')"
            using colx c by (subst on_path_iff) (simp add: i_def r)
          then show ?thesis by (simp add: eq)
        next
          case False
          then have p: "on_path rx x t" using px by simp
          have "on_path rx x (set_node t i c')"
          proof (rule on_path_set_node[OF p])
            show "i < length (nodes t)" using c by (simp add: i_def)
            assume j: "nat (get_index t rx) = i" and ne: "get_index t rx \<noteq> -1"
              and pc: "on_path rx x (nodes t ! i)"
            have "overlaps rx (bounds (nodes t ! i))"
              using quadrant_contains(2)[OF q _ cx ne] c j by simp
            then show "on_path rx x c'" using step pc by simp
          qed
          then show ?thesis by (simp add: eq)
        qed
      next
        case c: False
        define t1 where "t1 = set_objects t (set_add obj (objects t))"
        have p1: "on_path rx x t1"
        proof (cases "obj = x")
          case True
          then show ?thesis using colx by (subst on_path_iff) (simp add: t1_def)
        next
          case False
          then have "on_path rx x t" using px by simp
          then show ?thesis unfolding t1_def by (rule on_path_set_objects) simp
        qed
        show ?thesis
        proof (cases "max_objects t1 < int (length (objects t1)) \<and> level t1 < max_levels t1")
          case s: True
          define t2 where "t2 = (if nodes t1 = [] then split t1 else t1)"
          have q2: "exact_quadrants t2"
            using q s by (auto simp add: t2_def t1_def exact_quadrants_split)
          have p2: "on_path rx x t2"
            using p1 by (auto simp add: t2_def on_path_split)
          have b2: "bounds t2 = bounds t" by (simp add: t2_def t1_def)
          have "on_path rx x (redistribute bbox (objects t2) t2)"
            using "1.IH"(2)[OF Some _ c t1_def s t2_def] True q2 p2 b2 cx bx by simp
          moreover have "insert_obj bbox obj t = redistribute bbox (objects t2) t2"
            using Some True c s
            by (subst insert_obj.simps) (auto simp add: Let_def t1_def[symmetric] t2_def[symmetric])
          ultimately show ?thesis by simp
        next
          case s: False
          have "insert_obj bbox obj t = t1"
            using Some True c s
            by (subst insert_obj.simps) (auto simp add: Let_def t1_def[symmetric])
          then show ?thesis using p1 by simp
        qed
      qed
    qed
  qed
next
  case (2 bbox t)
  then show ?case by simp
next
  case (3 bbox obj rest t)
  note q = "3.prems"(1) and cx = "3.prems"(2) and bx = "3.prems"(3) and px = "3.prems"(4)
  have colx: "colliderect (bounds t) rx" using cx by (rule overlaps_collide)
  show ?case
  proof (cases "bbox obj")
    case None
    then show ?thesis using "3.IH"(1)[OF None q cx bx px] by simp
  next
    case (Some r)
    have rx: "obj = x \<Longrightarrow> r = rx" using Some bx by simp
    show ?thesis
    proof (cases "get_index t r \<noteq> -1 \<and> nat (get_index t r) < length (nodes t)")
      case c: True
      define i where "i = nat (get_index t r)"
      define c' where "c' = insert_obj bbox obj (nodes t ! i)"
      define t' where "t' = set_objects (set_node t i c') (set_discard obj (objects t))"
      have ne: "nodes t \<noteq> []" using c by auto
      have eq: "redistribute bbox (obj # rest) t = redistribute bbox rest t'"
        using Some c by (simp add: t'_def c'_def i_def)
      have qc: "exact_quadrants (nodes t ! i)"
        using exact_quadrants_child[OF q] c by (simp add: i_def)
      have step: "overlaps rx (bounds (nodes t ! i)) \<Longrightarrow> obj = x \<or> on_path rx x (nodes t ! i)
                      \<Longrightarrow> on_path rx x c'"
        using "3.IH"(2)[OF Some c] qc bx by (simp add: i_def c'_def)
      have "exact_quadrants c'"
        using exact_quadrants_insert(1)[OF qc] by (simp add: c'_def)
      then have q': "exact_quadrants t'"
        unfolding t'_def exact_quadrants_set_objects
        using c q by (intro exact_quadrants_set_node) (auto simp add: same_frame_insert i_def c'_def)
      have p': "on_path rx x t'"
      proof (cases "obj = x")
        case True
        then have r: "r = rx" by (rule rx)
        have "overlaps rx (bounds (nodes t ! i))"
          using quadrant_contains(2)[OF q ne cx] c by (simp add: i_def r)
        then have "on_path rx x c'" using step True by simp
        then show ?thesis
          using colx c ne by (subst on_path_iff) (simp add: t'_def i_def r)
      next
        case False
        have "on_path rx x (set_node t i c')"
        proof (rule on_path_set_node[OF px])
          show "i < length (nodes t)" using c by (simp add: i_def)
          assume j: "nat (get_index t rx) = i" and n1: "get_index t rx \<noteq> -1"
            and pc: "on_path rx x (nodes t ! i)"
          have "overlaps rx (bounds (nodes t ! i))"
            using quadrant_contains(2)[OF q ne cx n1] j by simp
          then show "on_path rx x c'" using step pc by simp
        qed
        then show ?thesis unfolding t'_def
          using False by (intro on_path_set_objects) auto
      qed
      have "on_path rx x (redistribute bbox rest t')"
        using "3.IH"(3)[OF Some c] q' p' cx bx by (simp add: t'_def c'_def i_def)
      then show ?thesis by (simp only: eq)
    next
      case c: False
      then show ?thesis using "3.IH"(4)[OF Some c q cx bx px] Some by auto
    qed
  qed
qed


lemma remove_recursive_frame [simp]:
  "bounds (remove_recursive obj r t) = bounds t"
  "max_objects (remove_recursive obj r t) = max_objects t"
  "max_levels (remove_recursive obj r t) = max_levels t"
  "level (remove_recursive obj r t) = level t"
  by (cases t; simp)+

lemma exact_quadrants_remove:
  "exact_quadrants t \<Longrightarrow> exact_quadrants (remove_recursive obj r t)"
proof (induction obj r t rule: remove_recursive.induct)
  case (1 obj obj_rect b mo ml lv os ns vm hm)
  show ?case
  proof (cases "colliderect b obj_rect \<and> ns \<noteq> []")
    case False
    then show ?thesis using "1.prems" by auto
  next
    case True
    have mb: "map bounds (map (remove_recursive obj obj_rect) ns) = map bounds ns"
      by (simp add: comp_def)
    have "\<forall>c \<in> set ns. exact_quadrants (remove_recursive obj obj_rect c)"
      using "1.IH" True "1.prems" by auto
    then show ?thesis using "1.prems" True mb by (simp add: comp_def)
  qed
qed

lemma bounds_remove_obj [simp]: "bounds (remove_obj bbox obj t) = bounds t"
  by (simp add: remove_obj_def split: option.splits)

lemma exact_quadrants_remove_obj:
  "exact_quadrants t \<Longrightarrow> exact_quadrants (remove_obj bbox obj t)"
  by (simp add: remove_obj_def exact_quadrants_remove split: option.splits)

lemma exact_quadrants_update:
  "exact_quadrants t \<Longrightarrow> exact_quadrants (update_object bbox obj t)"
  by (simp add: update_object_def exact_quadrants_insert(1) exact_quadrants_remove_obj)

lemma retrieve_root:
  "colliderect (bounds t) q \<Longrightarrow> obj \<in> set (objects t) \<Longrightarrow> obj \<in> set (retrieve q t)"
  by (rule on_path_retrieve) (rule on_path.here)

lemma update_unsplit:
  assumes "bbox obj = Some r" "nodes t = []" "colliderect (bounds t) r"
      and "int (length (set_add obj (set_discard obj (objects t)))) \<le> max_objects t
           \<or> max_levels t \<le> level t"
  shows "update_object bbox obj t = set_objects t (set_add obj (set_discard obj (objects t)))"
proof -
  have r: "remove_obj bbox obj t = set_objects t (set_discard obj (objects t))"
    using assms(1-3) by (cases t) (simp add: remove_obj_def set_objects_def)
  show ?thesis
    unfolding update_object_def r
    using assms by (subst insert_obj.simps) (auto simp add: Let_def set_objects_def)
qed

lemma split_index_value:
  "split_index =
     SpatialQuadTree (Rect 0 0 128 128) 1 5 0 []
       [SpatialQuadTree (Rect 64 0 64 64) 1 5 1 [] [] 0 0,
        SpatialQuadTree (Rect 0 0 64 64) 1 5 1 [10] [] 0 0,
        SpatialQuadTree (Rect 0 64 64 64) 1 5 1 [] [] 0 0,
        SpatialQuadTree (Rect 64 64 64 64) 1 5 1 [20] [] 0 0]
       64 64"
  by (simp add: split_index_def boxes_before_def insert_obj.simps SpatialQuadTree_init_def
      colliderect_def set_objects_def set_node_def set_add_def set_discard_def split_def
      get_index_def rect_left_def rect_right_def rect_top_def rect_bottom_def Let_def)

lemma unsplit_index_value:
  "unsplit_index = SpatialQuadTree (Rect 0 0 128 128) 10 5 0 [10, 20] [] 0 0"
  by (simp add: unsplit_index_def boxes_before_def insert_obj.simps SpatialQuadTree_init_def
      colliderect_def set_objects_def set_add_def)

lemma split_index_exact: "exact_quadrants split_index"
  by (simp add: split_index_value)

lemma unsplit_index_exact: "exact_quadrants unsplit_index"
  by (simp add: unsplit_index_value)

lemma split_update_value:
  "update_object boxes_after 10 split_index =
     SpatialQuadTree (Rect 0 0 128 128) 1 5 0 []
       [SpatialQuadTree (Rect 64 0 64 64) 1 5 1 [10] [] 0 0,
        SpatialQuadTree (Rect 0 0 64 64) 1 5 1 [10] [] 0 0,
        SpatialQuadTree (Rect 0 64 64 64) 1 5 1 [] [] 0 0,
        SpatialQuadTree (Rect 64 64 64 64) 1 5 1 [20] [] 0 0]
       64 64"
  by (simp add: split_index_value update_object_def remove_obj_def boxes_after_def boxes_before_def
      insert_obj.simps colliderect_def set_objects_def set_node_def set_add_def set_discard_def
      get_index_def rect_left_def rect_right_def rect_top_def rect_bottom_def Let_def)

text \<open>
  What \<open>update_object\<close> does achieve.  Let the entity's bounding box after the move
  be \<open>r\<close>.  In an index with exact quadrants, if \<open>r\<close> has positive size and collides
  with the region of the index, then after \<open>update_object\<close> a retrieve over \<open>r\<close>
  returns the entity.  And since retrieve returns every entity stored in a node it
  visits, in an index that has not split and stays within its capacity (or depth limit)
  every retrieve over a box \<open>q\<close> that collides with the region returns the moved
  entity.
\<close>

lemma retrieve_new_box_after_update:
  assumes "bbox obj = Some r"
  shows "(exact_quadrants t \<and> 0 < rect_width r \<and> 0 < rect_height r \<and> colliderect (bounds t) r
            \<longrightarrow> obj \<in> set (retrieve r (update_object bbox obj t)))
       \<and> (nodes t = [] \<and> colliderect (bounds t) r \<and>
          (int (length (set_add obj (set_discard obj (objects t)))) \<le> max_objects t
             \<or> max_levels t \<le> level t) \<and>
          colliderect (bounds t) q
            \<longrightarrow> obj \<in> set (retrieve q (update_object bbox obj t)))"
proof (intro conjI impI)
  assume a: "exact_quadrants t \<and> 0 < rect_width r \<and> 0 < rect_height r \<and> colliderect (bounds t) r"
  have "on_path r obj (insert_obj bbox obj (remove_obj bbox obj t))"
  proof (rule on_path_insert(1))
    show "exact_quadrants (remove_obj bbox obj t)" using a by (simp add: exact_quadrants_remove_obj)
    show "overlaps r (bounds (remove_obj bbox obj t))" using a by (simp add: overlaps_def)
    show "bbox obj = Some r" by (rule assms)
    show "obj = obj \<or> on_path r obj (remove_obj bbox obj t)" by simp
  qed
  then show "obj \<in> set (retrieve r (update_object bbox obj t))"
    unfolding update_object_def by (rule on_path_retrieve)
next
  assume a: "nodes t = [] \<and> colliderect (bounds t) r \<and>
          (int (length (set_add obj (set_discard obj (objects t)))) \<le> max_objects t
             \<or> max_levels t \<le> level t) \<and>
          colliderect (bounds t) q"
  have "update_object bbox obj t = set_objects t (set_add obj (set_discard obj (objects t)))"
    using update_unsplit[of bbox obj r t] assms a by blast
  then show "obj \<in> set (retrieve q (update_object bbox obj t))"
    using a by (intro retrieve_root) auto
qed

lemma retrieve_new_box_after_update_example:
  "boxes_after 10 = Some (Rect 100 20 4 4)
   \<and> exact_quadrants split_index
   \<and> colliderect (bounds split_index) (Rect 100 20 4 4)
   \<and> 10 \<in> set (retrieve (Rect 100 20 4 4) (update_object boxes_after 10 split_index))
   \<and> nodes unsplit_index = []
   \<and> colliderect (bounds unsplit_index) (Rect 100 20 4 4)
   \<and> colliderect (bounds unsplit_index) (Rect 8 8 4 4)
   \<and> 10 \<in> set (retrieve (Rect 8 8 4 4) (update_object boxes_after 10 unsplit_index))"
proof -
  have b: "boxes_after 10 = Some (Rect 100 20 4 4)" by (simp add: boxes_after_def)
  have s: "exact_quadrants split_index \<and> (0::int) < rect_width (Rect 100 20 4 4)
         \<and> (0::int) < rect_height (Rect 100 20 4 4)
         \<and> colliderect (bounds split_index) (Rect 100 20 4 4)"
    by (simp add: split_index_value colliderect_def)
  have u: "nodes unsplit_index = [] \<and> colliderect (bounds unsplit_index) (Rect 100 20 4 4) \<and>
          (int (length (set_add 10 (set_discard 10 (objects unsplit_index)))) \<le> max_objects unsplit_index
             \<or> max_levels unsplit_index \<le> level unsplit_index) \<and>
          colliderect (bounds unsplit_index) (Rect 8 8 4 4)"
    by (simp add: unsplit_index_value colliderect_def set_add_def set_discard_def)
  from retrieve_new_box_after_update [of boxes_after 10 "Rect 100 20 4 4" split_index "Rect 8 8 4 4"]
       retrieve_new_box_after_update [of boxes_after 10 "Rect 100 20 4 4" unsplit_index "Rect 8 8 4 4"] b s u
  show ?thesis by blast
qed

text \<open>
  In the index that has not split every entity is stored at the root, and a retrieve over
  any box that collides with the region returns all of them: the retrieve over the box
  that entity \<open>10\<close> has left still returns it.
\<close>

lemma unsplit_index_returns_moved_entity:
  "boxes_before 10 = Some (Rect 8 8 4 4)
   \<and> 10 \<in> set (retrieve (Rect 8 8 4 4) unsplit_index)
   \<and> boxes_after 10 = Some (Rect 100 20 4 4)
   \<and> \<not> colliderect (Rect 8 8 4 4) (Rect 100 20 4 4)
   \<and> 10 \<in> set (retrieve (Rect 8 8 4 4) (update_object boxes_after 10 unsplit_index))"
  by (simp add: unsplit_index_value update_object_def remove_obj_def boxes_after_def
      boxes_before_def insert_obj.simps colliderect_def set_objects_def set_add_def
      set_discard_def retrieve.simps)

text \<open>
  Why the quadrants have to be exact: over the region \<open>Rect 0 0 5 5\<close> the children
  are two units wide and leave the last column uncovered.  A box in that column is
  handed to a child that ignores it and is then removed from the parent.
\<close>

lemma odd_region_loses_entity:
  "colliderect (Rect 0 0 5 5) (Rect 4 0 1 1)
   \<and> retrieve (Rect 4 0 1 1)
        (insert_obj (\<lambda>_. Some (Rect 4 0 1 1)) (7::nat) (SpatialQuadTree_init (Rect 0 0 5 5) 0 5 0))
       = []"
  by (simp add: insert_obj.simps SpatialQuadTree_init_def colliderect_def set_objects_def
      set_node_def set_add_def set_discard_def split_def get_index_def rect_left_def
      rect_right_def rect_top_def rect_bottom_def Let_def retrieve.simps set_union_def)

lemma remove_with_new_box_value:
  "remove_obj boxes_after 10 split_index = split_index"
  by (simp add: split_index_value remove_obj_def boxes_after_def colliderect_def set_discard_def)

lemma remove_with_old_box_value:
  "insert_obj boxes_after 10 (remove_obj boxes_before 10 split_index) =
     SpatialQuadTree (Rect 0 0 128 128) 1 5 0 []
       [SpatialQuadTree (Rect 64 0 64 64) 1 5 1 [10] [] 0 0,
        SpatialQuadTree (Rect 0 0 64 64) 1 5 1 [] [] 0 0,
        SpatialQuadTree (Rect 0 64 64 64) 1 5 1 [] [] 0 0,
        SpatialQuadTree (Rect 64 64 64 64) 1 5 1 [20] [] 0 0]
       64 64"
  by (simp add: split_index_value remove_obj_def boxes_after_def boxes_before_def
      insert_obj.simps colliderect_def set_objects_def set_node_def set_add_def set_discard_def
      get_index_def rect_left_def rect_right_def rect_top_def rect_bottom_def Let_def)

text \<open>
  Claim C2.  In the index that has split, entity \<open>10\<close> is stored in the NW quadrant and
  is retrieved over its box \<open>Rect 8 8 4 4\<close>.  Its shape then moves to the disjoint box
  \<open>Rect 100 20 4 4\<close> in the NE quadrant and \<open>update_object\<close> is called.  \<open>remove\<close>
  reads the box the entity has after the move, never reaches the NW quadrant and changes
  nothing; \<open>insert\<close> then stores the entity in NE as well.  The retrieve over the new
  box returns the entity, and so does the retrieve over the old box.  Removing with the
  box the entity had before the move leaves the old box empty.
\<close>

theorem stale_entry_after_update:
  "boxes_before 10 = Some (Rect 8 8 4 4)
   \<and> retrieve (Rect 8 8 4 4) split_index = [10]
   \<and> boxes_after 10 = Some (Rect 100 20 4 4)
   \<and> \<not> colliderect (Rect 8 8 4 4) (Rect 100 20 4 4)
   \<and> remove_obj boxes_after 10 split_index = split_index
   \<and> update_object boxes_after 10 split_index =
       SpatialQuadTree (Rect 0 0 128 128) 1 5 0 []
         [SpatialQuadTree (Rect 64 0 64 64) 1 5 1 [10] [] 0 0,
          SpatialQuadTree (Rect 0 0 64 64) 1 5 1 [10] [] 0 0,
          SpatialQuadTree (Rect 0 64 64 64) 1 5 1 [] [] 0 0,
          SpatialQuadTree (Rect 64 64 64 64) 1 5 1 [20] [] 0 0]
         64 64
   \<and> retrieve (Rect 100 20 4 4) (update_object boxes_after 10 split_index) = [10]
   \<and> retrieve (Rect 8 8 4 4) (update_object boxes_after 10 split_index) = [10]
   \<and> retrieve (Rect 8 8 4 4) (insert_obj boxes_after 10 (remove_obj boxes_before 10 split_index)) = []"
proof (intro conjI)
  show "boxes_before 10 = Some (Rect 8 8 4 4)"
    by (simp add: boxes_before_def)
  show "retrieve (Rect 8 8 4 4) split_index = [10]"
    by (simp add: split_index_value retrieve.simps colliderect_def get_index_def rect_left_def
        rect_right_def rect_top_def rect_bottom_def Let_def set_union_def set_add_def)
  show "boxes_after 10 = Some (Rect 100 20 4 4)"
    by (simp add: boxes_after_def)
  show "\<not> colliderect (Rect 8 8 4 4) (Rect 100 20 4 4)"
    by (simp add: colliderect_def)
  show "remove_obj boxes_after 10 split_index = split_index"
    by (rule remove_with_new_box_value)
  show "update_object boxes_after 10 split_index =
       SpatialQuadTree (Rect 0 0 128 128) 1 5 0 []
         [SpatialQuadTree (Rect 64 0 64 64) 1 5 1 [10] [] 0 0,
          SpatialQuadTree (Rect 0 0 64 64) 1 5 1 [10] [] 0 0,
          SpatialQuadTree (Rect 0 64 64 64) 1 5 1 [] [] 0 0,
          SpatialQuadTree (Rect 64 64 64 64) 1 5 1 [20] [] 0 0]
         64 64"
    by (rule split_update_value)
  show "retrieve (Rect 100 20 4 4) (update_object boxes_after 10 split_index) = [10]"
    by (simp add: split_update_value retrieve.simps colliderect_def get_index_def rect_left_def
        rect_right_def rect_top_def rect_bottom_def Let_def set_union_def set_add_def)
  show "retrieve (Rect 8 8 4 4) (update_object boxes_after 10 split_index) = [10]"
    by (simp add: split_update_value retrieve.simps colliderect_def get_index_def rect_left_def
        rect_right_def rect_top_def rect_bottom_def Let_def set_union_def set_add_def)
  show "retrieve (Rect 8 8 4 4) (insert_obj boxes_after 10 (remove_obj boxes_before 10 split_index)) = []"
    by (simp add: remove_with_old_box_value retrieve.simps colliderect_def get_index_def
        rect_left_def rect_right_def rect_top_def rect_bottom_def Let_def set_union_def set_add_def)
qed

end
